theory Spec2Isabelle
  imports Main "HOL-Library.List_Lexorder"
begin

text \<open>
  A model of \<^verbatim>\<open>scripts/generate_formulas.py\<close>, the generator of Homebrew formulas from
  GitHub releases: the classification of release assets by platform, the extraction,
  grouping and sorting of versions, the retention window, the rendering of a formula, the
  cleanup of pinned formulas, and \<^verbatim>\<open>process_project\<close>, which ties them together. The
  network (the release API and the downloads) and the matcher of \<^verbatim>\<open>Path.glob\<close> are
  parameters; the formula directory is explicit state; an exception is a value.
\<close>

section \<open>Python strings\<close>

text \<open>
  Strings of \<^verbatim>\<open>scripts/generate_formulas.py\<close> are modelled as \<^typ>\<open>string\<close>.
  The model covers ASCII text: \<^verbatim>\<open>str.lower\<close> and \<^verbatim>\<open>str.upper\<close> change the 26 ASCII
  letters and leave every other character alone.
\<close>

definition ascii_upper :: string where
  "ascii_upper = ''ABCDEFGHIJKLMNOPQRSTUVWXYZ''"

definition ascii_lower :: string where
  "ascii_lower = ''abcdefghijklmnopqrstuvwxyz''"

definition lower_char :: "char \<Rightarrow> char" where
  "lower_char c = (case map_of (zip ascii_upper ascii_lower) c of Some d \<Rightarrow> d | None \<Rightarrow> c)"

definition upper_char :: "char \<Rightarrow> char" where
  "upper_char c = (case map_of (zip ascii_lower ascii_upper) c of Some d \<Rightarrow> d | None \<Rightarrow> c)"

definition lower :: "string \<Rightarrow> string" where
  "lower s = map lower_char s"

text \<open>\<^verbatim>\<open>s.startswith(p)\<close>\<close>

fun startswith :: "string \<Rightarrow> string \<Rightarrow> bool" where
  "startswith s [] = True"
| "startswith [] (p # ps) = False"
| "startswith (c # cs) (p # ps) = (c = p \<and> startswith cs ps)"

text \<open>\<^verbatim>\<open>s.endswith(ext)\<close>\<close>

definition endswith :: "string \<Rightarrow> string \<Rightarrow> bool" where
  "endswith s ext = startswith (rev s) (rev ext)"

text \<open>\<^verbatim>\<open>sub in s\<close>: substring containment.\<close>

fun py_in :: "string \<Rightarrow> string \<Rightarrow> bool" where
  "py_in sub [] = (sub = [])"
| "py_in sub (c # cs) = (startswith (c # cs) sub \<or> py_in sub cs)"

text \<open>\<^verbatim>\<open>s.split(sep)\<close> for a separator of one character, and \<^verbatim>\<open>re.split\<close> on a
  character class: both cut at every separator and keep empty pieces.\<close>

fun split_where :: "(char \<Rightarrow> bool) \<Rightarrow> string \<Rightarrow> string list" where
  "split_where sep [] = [[]]"
| "split_where sep (c # cs) =
     (if sep c then [] # split_where sep cs
      else (case split_where sep cs of
              [] \<Rightarrow> [[c]]
            | w # ws \<Rightarrow> (c # w) # ws))"

definition split :: "string \<Rightarrow> char \<Rightarrow> string list" where
  "split s sep = split_where (\<lambda>c. c = sep) s"

text \<open>\<^verbatim>\<open>s.lstrip(chars)\<close>: drops every leading character that is in \<open>chars\<close>.\<close>

definition lstrip :: "string \<Rightarrow> string \<Rightarrow> string" where
  "lstrip s chars = dropWhile (\<lambda>c. c \<in> set chars) s"

text \<open>\<^verbatim>\<open>s.replace(old, new)\<close>: the occurrences of \<open>old\<close> are found from the left and do
  not overlap; an empty \<open>old\<close> matches before every character and at the end.\<close>

function replace_nonempty :: "string \<Rightarrow> string \<Rightarrow> string \<Rightarrow> string" where
  "replace_nonempty old new [] = []"
| "replace_nonempty old new (c # cs) =
     (if old \<noteq> [] \<and> startswith (c # cs) old
      then new @ replace_nonempty old new (drop (length old) (c # cs))
      else c # replace_nonempty old new cs)"
  by pat_completeness auto
termination
  by (relation "measure (\<lambda>(old, new, s). length s)") auto

definition replace :: "string \<Rightarrow> string \<Rightarrow> string \<Rightarrow> string" where
  "replace s old new =
     (if old = [] then new @ concat (map (\<lambda>c. c # new) s)
      else replace_nonempty old new s)"

section \<open>Regular expressions of the platform table\<close>

text \<open>
  The patterns of \<^verbatim>\<open>PLATFORM_PATTERNS\<close> use literal characters and \<^verbatim>\<open>.*\<close> only.
  \<open>re_compile\<close> reads that fragment of the syntax (a dot stands for any character but a
  newline), and \<open>re_search\<close> is \<^verbatim>\<open>re.search\<close>: a match may start anywhere.
\<close>

datatype re_token = Lit char | AnyChar | AnyStar

fun re_compile :: "string \<Rightarrow> re_token list" where
  "re_compile [] = []"
| "re_compile (c # cs) =
     (if c = CHR ''.'' then
        (case cs of
           [] \<Rightarrow> [AnyChar]
         | d # ds \<Rightarrow> if d = CHR ''*'' then AnyStar # re_compile ds else AnyChar # re_compile cs)
      else Lit c # re_compile cs)"

fun re_match_here :: "re_token list \<Rightarrow> string \<Rightarrow> bool" where
  "re_match_here [] s = True"
| "re_match_here (Lit c # ts) [] = False"
| "re_match_here (Lit c # ts) (d # ds) = (c = d \<and> re_match_here ts ds)"
| "re_match_here (AnyChar # ts) [] = False"
| "re_match_here (AnyChar # ts) (d # ds) = (d \<noteq> CHR ''\<newline>'' \<and> re_match_here ts ds)"
| "re_match_here (AnyStar # ts) [] = re_match_here ts []"
| "re_match_here (AnyStar # ts) (d # ds) =
     (re_match_here ts (d # ds) \<or> (d \<noteq> CHR ''\<newline>'' \<and> re_match_here (AnyStar # ts) ds))"

fun re_search_tokens :: "re_token list \<Rightarrow> string \<Rightarrow> bool" where
  "re_search_tokens ts [] = re_match_here ts []"
| "re_search_tokens ts (c # cs) = (re_match_here ts (c # cs) \<or> re_search_tokens ts cs)"

definition re_search :: "string \<Rightarrow> string \<Rightarrow> bool" where
  "re_search pattern s = re_search_tokens (re_compile pattern) s"

section \<open>Platform detection\<close>

text \<open>The table \<^verbatim>\<open>PLATFORM_PATTERNS\<close>, a dictionary in insertion order.\<close>

definition PLATFORM_PATTERNS :: "(string \<times> string list) list" where
  "PLATFORM_PATTERNS =
    [(''macos_arm64'',
        [''darwin.*arm64'', ''darwin.*aarch64'', ''macos.*arm64'', ''macos.*aarch64'',
         ''apple.*arm64'', ''apple.*aarch64'', ''osx.*arm64'', ''osx.*aarch64'',
         ''mac.*arm64'', ''mac.*aarch64'']),
     (''macos_x86_64'',
        [''darwin.*x86_64'', ''darwin.*amd64'', ''macos.*x86_64'', ''macos.*amd64'',
         ''apple.*x86_64'', ''apple.*amd64'', ''osx.*x86_64'', ''osx.*amd64'',
         ''mac.*x86_64'', ''mac.*amd64'', ''darwin64'']),
     (''linux_arm64'',
        [''linux.*arm64'', ''linux.*aarch64'']),
     (''linux_x86_64'',
        [''linux.*x86_64'', ''linux.*amd64'', ''linux64''])]"

definition ARCHIVE_EXTENSIONS :: "string list" where
  "ARCHIVE_EXTENSIONS = [''.tar.gz'', ''.tgz'', ''.zip'', ''.tar.xz'', ''.tar.bz2'']"

text \<open>The two nested loops of \<^verbatim>\<open>detect_platform\<close>: the first pattern that is found
  returns its platform.\<close>

fun first_pattern :: "string list \<Rightarrow> string \<Rightarrow> bool" where
  "first_pattern [] name_lower = False"
| "first_pattern (pattern # patterns) name_lower =
     (if re_search pattern name_lower then True else first_pattern patterns name_lower)"

fun first_platform :: "(string \<times> string list) list \<Rightarrow> string \<Rightarrow> string option" where
  "first_platform [] name_lower = None"
| "first_platform ((platform, patterns) # items) name_lower =
     (if first_pattern patterns name_lower then Some platform
      else first_platform items name_lower)"

definition detect_platform :: "string \<Rightarrow> string option" where
  "detect_platform asset_name =
     (let name_lower = lower asset_name in
      if \<not> list_ex (\<lambda>ext. endswith name_lower ext) ARCHIVE_EXTENSIONS then None
      else first_platform PLATFORM_PATTERNS name_lower)"

definition match_asset_pattern :: "string \<Rightarrow> string \<Rightarrow> bool" where
  "match_asset_pattern asset_name pattern = py_in (lower pattern) (lower asset_name)"

section \<open>Data model\<close>

text \<open>The dataclasses \<^verbatim>\<open>Asset\<close>, \<^verbatim>\<open>Release\<close> and \<^verbatim>\<open>Project\<close>; a field \<open>f\<close> of
  class \<open>C\<close> is \<open>C_f\<close>. Dictionaries are association lists in insertion order.\<close>

record Asset =
  Asset_name :: string
  Asset_url :: string
  Asset_sha256 :: string

record Release =
  Release_tag :: string
  Release_version :: string
  Release_major_minor :: string
  Release_assets :: "(string \<times> Asset) list"

record Project =
  Project_repo :: string
  Project_name :: string
  Project_description :: string
  Project_license :: string
  Project_homepage :: string
  Project_binary_name :: string
  Project_keep_versions :: int
  Project_asset_patterns :: "(string \<times> string) list"

text \<open>What the release API returns for one release: the keys the program reads.\<close>

record asset_data =
  ad_name :: string
  ad_browser_download_url :: string

record release_data =
  rd_tag_name :: string
  rd_prerelease :: bool
  rd_draft :: bool
  rd_assets :: "asset_data list"

text \<open>\<^verbatim>\<open>d[k] = v\<close>: an existing key keeps its place, a new key goes last.\<close>

fun dict_set :: "'k \<Rightarrow> 'v \<Rightarrow> ('k \<times> 'v) list \<Rightarrow> ('k \<times> 'v) list" where
  "dict_set k v [] = [(k, v)]"
| "dict_set k v ((k', v') # d) = (if k' = k then (k, v) # d else (k', v') # dict_set k v d)"

section \<open>Asset classification\<close>

text \<open>The loop over \<^verbatim>\<open>project.asset_patterns.items()\<close> with its \<^verbatim>\<open>break\<close>.\<close>

fun custom_platform :: "(string \<times> string) list \<Rightarrow> string \<Rightarrow> string option" where
  "custom_platform [] name = None"
| "custom_platform ((platform, pattern) # items) name =
     (if match_asset_pattern name pattern then Some platform
      else custom_platform items name)"

definition new_asset :: "string \<Rightarrow> string \<Rightarrow> Asset" where
  "new_asset name url = \<lparr>Asset_name = name, Asset_url = url, Asset_sha256 = []\<rparr>"

fun find_release_assets_loop ::
  "asset_data list \<Rightarrow> Project \<Rightarrow> (string \<times> Asset) list \<Rightarrow> (string \<times> Asset) list" where
  "find_release_assets_loop [] project assets = assets"
| "find_release_assets_loop (asset # rest) project assets =
     (let name = ad_name asset; url = ad_browser_download_url asset in
      if Project_asset_patterns project \<noteq> [] then
        (case custom_platform (Project_asset_patterns project) name of
           Some platform \<Rightarrow>
             find_release_assets_loop rest project (dict_set platform (new_asset name url) assets)
         | None \<Rightarrow> find_release_assets_loop rest project assets)
      else
        (case detect_platform name of
           Some platform \<Rightarrow>
             if platform \<noteq> [] then
               find_release_assets_loop rest project (dict_set platform (new_asset name url) assets)
             else find_release_assets_loop rest project assets
         | None \<Rightarrow> find_release_assets_loop rest project assets))"

definition find_release_assets :: "release_data \<Rightarrow> Project \<Rightarrow> (string \<times> Asset) list" where
  "find_release_assets release_data project =
     find_release_assets_loop (rd_assets release_data) project []"

section \<open>Versions\<close>

definition extract_version :: "string \<Rightarrow> string" where
  "extract_version tag = lstrip tag ''v''"

definition extract_major_minor :: "string \<Rightarrow> string" where
  "extract_major_minor version =
     (let parts = split version (CHR ''.'') in
      if length parts \<ge> 2 then parts ! 0 @ ''.'' @ parts ! 1 else version)"

section \<open>Formula rendering\<close>

text \<open>\<^verbatim>\<open>word.capitalize()\<close>: the first character in upper case, the others in lower case.\<close>

fun capitalize :: "string \<Rightarrow> string" where
  "capitalize [] = []"
| "capitalize (c # cs) = upper_char c # map lower_char cs"

definition class_name :: "Project \<Rightarrow> Release \<Rightarrow> bool \<Rightarrow> string" where
  "class_name project release is_versioned =
     (let words = split_where (\<lambda>c. c = CHR ''-'' \<or> c = CHR ''_'') (Project_name project);
          base = concat (map capitalize words)
      in if is_versioned then base @ ''AT'' @ replace (Release_major_minor release) ''.'' []
         else base)"

text \<open>The first f-string of \<^verbatim>\<open>generate_formula\<close>.\<close>

definition formula_header :: "Project \<Rightarrow> Release \<Rightarrow> bool \<Rightarrow> string" where
  \<open>formula_header project release is_versioned =
     ''class '' @ class_name project release is_versioned @ '' < Formula\<newline>'' @
     ''  desc "'' @ Project_description project @ ''"\<newline>'' @
     ''  homepage "'' @ Project_homepage project @ ''"\<newline>'' @
     ''  license "'' @ Project_license project @ ''"\<newline>'' @
     ''  version "'' @ Release_version release @ ''"\<newline>'' @
     ''\<newline>''\<close>

text \<open>The f-strings of a \<^verbatim>\<open>url\<close> and a \<^verbatim>\<open>sha256\<close> statement, after \<open>indent\<close>
  (six spaces inside an architecture branch, four outside). \<open>rendered_url\<close> is the
  expression \<^verbatim>\<open>asset.url.replace(release.tag, "v#{version}")\<close> that each of them holds.\<close>

definition rendered_url :: "Asset \<Rightarrow> Release \<Rightarrow> string" where
  "rendered_url asset release =
     replace (Asset_url asset) (Release_tag release) ''v#{version}''"

definition url_stmt :: "string \<Rightarrow> Asset \<Rightarrow> Release \<Rightarrow> string" where
  \<open>url_stmt indent asset release =
     indent @ ''url "'' @ rendered_url asset release @ ''"\<newline>''\<close>

definition sha256_stmt :: "string \<Rightarrow> Asset \<Rightarrow> string" where
  \<open>sha256_stmt indent asset = indent @ ''sha256 "'' @ Asset_sha256 asset @ ''"\<newline>''\<close>

text \<open>The strings that the macOS block appends to the formula, in order. An \<^verbatim>\<open>Asset\<close>
  object is always true, so \<^verbatim>\<open>if macos_arm\<close> asks whether the key is there.\<close>

definition macos_block :: "Release \<Rightarrow> string list" where
  "macos_block release =
     (let macos_arm = map_of (Release_assets release) ''macos_arm64'';
          macos_x86 = map_of (Release_assets release) ''macos_x86_64''
      in if macos_arm \<noteq> None \<or> macos_x86 \<noteq> None then
           [''  on_macos do\<newline>''] @
           (case macos_arm of
              Some arm \<Rightarrow>
                (case macos_x86 of
                   Some x86 \<Rightarrow>
                     [''    if Hardware::CPU.arm?\<newline>'',
                      url_stmt ''      '' arm release,
                      sha256_stmt ''      '' arm,
                      ''    else\<newline>'',
                      url_stmt ''      '' x86 release,
                      sha256_stmt ''      '' x86,
                      ''    end\<newline>'']
                 | None \<Rightarrow> [url_stmt ''    '' arm release, sha256_stmt ''    '' arm])
            | None \<Rightarrow>
                (case macos_x86 of
                   Some x86 \<Rightarrow> [url_stmt ''    '' x86 release, sha256_stmt ''    '' x86]
                 | None \<Rightarrow> [])) @
           [''  end\<newline>\<newline>'']
         else [])"

definition linux_block :: "Release \<Rightarrow> string list" where
  "linux_block release =
     (let linux_arm = map_of (Release_assets release) ''linux_arm64'';
          linux_x86 = map_of (Release_assets release) ''linux_x86_64''
      in if linux_arm \<noteq> None \<or> linux_x86 \<noteq> None then
           [''  on_linux do\<newline>''] @
           (case linux_arm of
              Some arm \<Rightarrow>
                (case linux_x86 of
                   Some x86 \<Rightarrow>
                     [''    if Hardware::CPU.arm?\<newline>'',
                      url_stmt ''      '' arm release,
                      sha256_stmt ''      '' arm,
                      ''    else\<newline>'',
                      url_stmt ''      '' x86 release,
                      sha256_stmt ''      '' x86,
                      ''    end\<newline>'']
                 | None \<Rightarrow> [url_stmt ''    '' arm release, sha256_stmt ''    '' arm])
            | None \<Rightarrow>
                (case linux_x86 of
                   Some x86 \<Rightarrow> [url_stmt ''    '' x86 release, sha256_stmt ''    '' x86]
                 | None \<Rightarrow> [])) @
           [''  end\<newline>\<newline>'']
         else [])"

text \<open>The last f-string: the install and test blocks.\<close>

definition install_block :: "Project \<Rightarrow> string" where
  \<open>install_block project =
     ''  def install\<newline>'' @
     ''    bin.install "'' @ Project_binary_name project @ ''"\<newline>'' @
     ''  end\<newline>'' @
     ''\<newline>'' @
     ''  test do\<newline>'' @
     ''    assert_match version.to_s, shell_output("#{bin}/'' @ Project_binary_name project @
       '' --version")\<newline>'' @
     ''  end\<newline>'' @
     ''end\<newline>''\<close>

text \<open>The strings appended to \<^verbatim>\<open>formula\<close>, in order, and the formula: their
  concatenation.\<close>

definition formula_parts :: "Project \<Rightarrow> Release \<Rightarrow> bool \<Rightarrow> string list" where
  "formula_parts project release is_versioned =
     [formula_header project release is_versioned] @ macos_block release @
     linux_block release @ [install_block project]"

definition generate_formula :: "Project \<Rightarrow> Release \<Rightarrow> bool \<Rightarrow> string" where
  "generate_formula project release is_versioned =
     concat (formula_parts project release is_versioned)"

section \<open>Exceptions\<close>

datatype error = ValueError | KeyError | IndexError | FileNotFoundError | HTTPError

section \<open>Sorting the minors\<close>

text \<open>
  \<^verbatim>\<open>int(x)\<close> on a string: white space around, an optional sign, then decimal digits,
  where one underscore may stand between two digits. Anything else raises
  \<^verbatim>\<open>ValueError\<close>, here \<open>None\<close>. The white space that \<^verbatim>\<open>int\<close> skips is the space, the
  characters 0x09 to 0x0D, and the code points 0x85 and 0xA0; the separators 0x1C to 0x1F
  are not skipped. (The interpreter's limit on the number of digits is not modelled.)
\<close>

definition is_digit :: "char \<Rightarrow> bool" where
  "is_digit c = (c \<in> set ''0123456789'')"

definition digit_value :: "char \<Rightarrow> nat" where
  "digit_value c =
     (case map_of (zip ''0123456789'' [0, 1, 2, 3, 4, 5, 6, 7, 8, 9]) c of
        Some d \<Rightarrow> d | None \<Rightarrow> 0)"

definition is_space :: "char \<Rightarrow> bool" where
  "is_space c =
     (c \<in> set [CHR '' '', CHR 0x09, CHR ''\<newline>'', CHR 0x0B, CHR 0x0C, CHR 0x0D,
               CHR 0x85, CHR 0xA0])"

definition strip :: "string \<Rightarrow> string" where
  "strip s = rev (dropWhile is_space (rev (dropWhile is_space s)))"

fun digits_value :: "nat \<Rightarrow> string \<Rightarrow> nat option" where
  "digits_value acc [] = Some acc"
| "digits_value acc (c # cs) =
     (if c = CHR ''_'' then
        (case cs of
           [] \<Rightarrow> None
         | d # ds \<Rightarrow> if is_digit d then digits_value acc cs else None)
      else if is_digit c then digits_value (10 * acc + digit_value c) cs
      else None)"

definition unsigned_value :: "string \<Rightarrow> nat option" where
  "unsigned_value s =
     (case s of
        [] \<Rightarrow> None
      | c # cs \<Rightarrow> if is_digit c then digits_value 0 s else None)"

definition py_int :: "string \<Rightarrow> int option" where
  "py_int x =
     (case strip x of
        [] \<Rightarrow> None
      | c # cs \<Rightarrow>
          if c = CHR ''-'' then map_option (\<lambda>n. - int n) (unsigned_value cs)
          else if c = CHR ''+'' then map_option int (unsigned_value cs)
          else map_option int (unsigned_value (c # cs)))"

text \<open>The sort key \<^verbatim>\<open>[int(x) for x in v.split(".")]\<close>; lists of integers compare
  lexicographically, as the order on lists does.\<close>

definition version_key :: "string \<Rightarrow> int list option" where
  "version_key v = those (map py_int (split v (CHR ''.'')))"

text \<open>
  \<^verbatim>\<open>sorted(xs, key=..., reverse=True)\<close> computes every key first (one that raises
  aborts the sort), then reverses the list, sorts it stably in ascending order of the keys
  and reverses the result: elements with equal keys keep their order.
\<close>

definition py_sorted_reverse :: "('a \<Rightarrow> 'k::linorder) \<Rightarrow> 'a list \<Rightarrow> 'a list" where
  "py_sorted_reverse key xs = rev (sort_key key (rev xs))"

definition sorted_versions :: "string list \<Rightarrow> error + string list" where
  "sorted_versions keys =
     (case those (map (\<lambda>v. map_option (\<lambda>k. (k, v)) (version_key v)) keys) of
        None \<Rightarrow> Inl ValueError
      | Some keyed \<Rightarrow> Inr (map snd (py_sorted_reverse fst keyed)))"

text \<open>\<^verbatim>\<open>xs[:stop]\<close>; a negative \<open>stop\<close> counts from the end.\<close>

definition slice_to :: "'a list \<Rightarrow> int \<Rightarrow> 'a list" where
  "slice_to xs stop =
     (if stop \<ge> 0 then take (nat stop) xs else take (length xs - nat (- stop)) xs)"

definition versions_to_keep :: "string list \<Rightarrow> Project \<Rightarrow> string list" where
  "versions_to_keep sorted_vs project = slice_to sorted_vs (Project_keep_versions project + 1)"

section \<open>Grouping the releases\<close>

text \<open>The loop that fills \<^verbatim>\<open>releases_by_minor\<close>.\<close>

fun group_releases ::
  "release_data list \<Rightarrow> (string \<times> release_data) list \<Rightarrow> (string \<times> release_data) list" where
  "group_releases [] releases_by_minor = releases_by_minor"
| "group_releases (release_data # rest) releases_by_minor =
     (if rd_prerelease release_data \<or> rd_draft release_data
      then group_releases rest releases_by_minor
      else
        (let tag = rd_tag_name release_data;
             version = extract_version tag;
             major_minor = extract_major_minor version
         in if map_of releases_by_minor major_minor = None
            then group_releases rest (dict_set major_minor release_data releases_by_minor)
            else group_releases rest releases_by_minor))"

section \<open>The formula directory\<close>

text \<open>
  The directory \<^verbatim>\<open>formula_dir\<close> is a list of files, each a name with its content, in
  the order in which the system lists them. Writing a file creates or overwrites it;
  \<^verbatim>\<open>unlink\<close> of a name that is not there raises.
  \<^verbatim>\<open>Path.glob\<close> belongs to the standard library: its matcher is the parameter \<open>glob\<close>
  (pattern, then file name) of the functions below. \<open>fnmatch\<close> is that matcher for
  patterns made of \<^verbatim>\<open>*\<close>, \<^verbatim>\<open>?\<close> and literal characters.
\<close>

type_synonym directory = "(string \<times> string) list"

definition write_file :: "string \<Rightarrow> string \<Rightarrow> directory \<Rightarrow> directory" where
  "write_file path content formula_dir = dict_set path content formula_dir"

definition unlink :: "string \<Rightarrow> directory \<Rightarrow> error + directory" where
  "unlink path formula_dir =
     (if path \<in> set (map fst formula_dir)
      then Inr (filter (\<lambda>file. fst file \<noteq> path) formula_dir)
      else Inl FileNotFoundError)"

fun fnmatch :: "string \<Rightarrow> string \<Rightarrow> bool" where
  "fnmatch [] [] = True"
| "fnmatch [] (c # cs) = False"
| "fnmatch (p # ps) [] = (p = CHR ''*'' \<and> fnmatch ps [])"
| "fnmatch (p # ps) (c # cs) =
     (if p = CHR ''*'' then fnmatch ps (c # cs) \<or> fnmatch (p # ps) cs
      else (p = CHR ''?'' \<or> p = c) \<and> fnmatch ps cs)"

definition find_existing_versioned_formulas ::
  "(string \<Rightarrow> string \<Rightarrow> bool) \<Rightarrow> directory \<Rightarrow> string \<Rightarrow> string list" where
  "find_existing_versioned_formulas glob formula_dir project_name =
     (let pattern = project_name @ ''@*.rb''
      in filter (glob pattern) (map fst formula_dir))"

text \<open>
  The regular expression of \<^verbatim>\<open>cleanup_old_versions\<close>, the escaped project name followed
  by \<^verbatim>\<open>@(\d+\.\d+)\.rb$\<close>. \<open>match_version_here\<close> matches it at the start of a string and
  returns group 1: each \<^verbatim>\<open>\d+\<close> takes all the digits there are, since the character after
  it is not a digit, and \<^verbatim>\<open>$\<close> holds at the end or before a last newline.
  \<open>search_version\<close> is \<^verbatim>\<open>re.search\<close>: the leftmost match.
\<close>

definition match_version_here :: "string \<Rightarrow> string \<Rightarrow> string option" where
  "match_version_here project_name s =
     (if startswith s (project_name @ ''@'') then
        (let r = drop (length project_name + 1) s;
             major = takeWhile is_digit r;
             r1 = dropWhile is_digit r
         in if major \<noteq> [] \<and> startswith r1 ''.'' then
              (let r2 = drop 1 r1;
                   minor = takeWhile is_digit r2;
                   r3 = dropWhile is_digit r2
               in if minor \<noteq> [] \<and> (r3 = ''.rb'' \<or> r3 = ''.rb\<newline>'')
                  then Some (major @ ''.'' @ minor)
                  else None)
            else None)
      else None)"

fun search_version :: "string \<Rightarrow> string \<Rightarrow> string option" where
  "search_version project_name [] = match_version_here project_name []"
| "search_version project_name (c # cs) =
     (case match_version_here project_name (c # cs) of
        Some version \<Rightarrow> Some version
      | None \<Rightarrow> search_version project_name cs)"

text \<open>
  The loop of \<^verbatim>\<open>cleanup_old_versions\<close> over the files found. The state is the
  directory, the list \<^verbatim>\<open>removed\<close> and the lines printed; an exception leaves with the
  state reached.
\<close>

record cleanup_state =
  cs_raised :: "error option"
  cs_dir :: directory
  cs_removed :: "string list"
  cs_printed :: "string list"

fun cleanup_loop ::
  "string list \<Rightarrow> string \<Rightarrow> string list \<Rightarrow> bool \<Rightarrow> cleanup_state \<Rightarrow> cleanup_state" where
  "cleanup_loop [] project_name keep_versions dry_run st = st"
| "cleanup_loop (formula_path # rest) project_name keep_versions dry_run st =
     (case search_version project_name formula_path of
        None \<Rightarrow> cleanup_loop rest project_name keep_versions dry_run st
      | Some version \<Rightarrow>
          if version \<notin> set keep_versions then
            (if dry_run then
               cleanup_loop rest project_name keep_versions dry_run
                 (st\<lparr>cs_printed := cs_printed st @ [''  Would remove: '' @ formula_path],
                     cs_removed := cs_removed st @ [formula_path]\<rparr>)
             else
               (case unlink formula_path (cs_dir st) of
                  Inl e \<Rightarrow> st\<lparr>cs_raised := Some e\<rparr>
                | Inr formula_dir' \<Rightarrow>
                    cleanup_loop rest project_name keep_versions dry_run
                      (st\<lparr>cs_dir := formula_dir',
                          cs_printed := cs_printed st @ [''  Removed: '' @ formula_path],
                          cs_removed := cs_removed st @ [formula_path]\<rparr>)))
          else cleanup_loop rest project_name keep_versions dry_run st)"

definition cleanup_old_versions ::
  "(string \<Rightarrow> string \<Rightarrow> bool) \<Rightarrow> directory \<Rightarrow> string \<Rightarrow> string list \<Rightarrow> bool \<Rightarrow> cleanup_state" where
  "cleanup_old_versions glob formula_dir project_name keep_versions dry_run =
     (let existing = find_existing_versioned_formulas glob formula_dir project_name
      in cleanup_loop existing project_name keep_versions dry_run
           \<lparr>cs_raised = None, cs_dir = formula_dir, cs_removed = [], cs_printed = []\<rparr>)"

section \<open>Processing a project\<close>

text \<open>
  The repository metadata, as far as the program reads it. \<open>ri_description\<close> is \<open>None\<close>
  when the key is missing or null. The key \<^verbatim>\<open>license\<close> is missing, null, or a dictionary
  whose values are strings or null.
\<close>

datatype license_field =
  LicenseMissing | LicenseNull | LicenseDict "(string \<times> string option) list"

record repo_info =
  ri_description :: "string option"
  ri_license :: license_field

text \<open>The client: what its two calls return for a repository.\<close>

record GitHubAPI =
  get_repo :: "string \<Rightarrow> error + repo_info"
  get_releases :: "string \<Rightarrow> nat \<Rightarrow> error + release_data list"

text \<open>
  \<^verbatim>\<open>license_info.get("spdx_id", "MIT") if license_info else "MIT"\<close>, where
  \<^verbatim>\<open>license_info = repo_info.get("license", {})\<close>. A null \<^verbatim>\<open>spdx_id\<close> makes the
  attribute \<^verbatim>\<open>None\<close>, which the formula's f-string prints as \<^verbatim>\<open>None\<close>.
\<close>

definition license_from_repo :: "repo_info \<Rightarrow> string" where
  "license_from_repo repo_info =
     (case ri_license repo_info of
        LicenseMissing \<Rightarrow> ''MIT''
      | LicenseNull \<Rightarrow> ''MIT''
      | LicenseDict license_info \<Rightarrow>
          if license_info = [] then ''MIT''
          else (case map_of license_info ''spdx_id'' of
                  None \<Rightarrow> ''MIT''
                | Some None \<Rightarrow> ''None''
                | Some (Some spdx_id) \<Rightarrow> spdx_id))"

definition description_from_repo :: "repo_info \<Rightarrow> Project \<Rightarrow> string" where
  "description_from_repo repo_info project =
     (case ri_description repo_info of
        None \<Rightarrow> Project_name project @ '' CLI tool''
      | Some d \<Rightarrow> if d = [] then Project_name project @ '' CLI tool'' else d)"

text \<open>The first step of \<^verbatim>\<open>process_project\<close>: description and license from the
  repository when the configuration has none.\<close>

definition fill_repo_info :: "Project \<Rightarrow> GitHubAPI \<Rightarrow> error + Project" where
  "fill_repo_info project github =
     (if Project_description project = [] \<or> Project_license project = [] then
        (case get_repo github (Project_repo project) of
           Inl e \<Rightarrow> Inl e
         | Inr repo_info \<Rightarrow>
             (let project1 =
                    (if Project_description project = []
                     then project\<lparr>Project_description := description_from_repo repo_info project\<rparr>
                     else project);
                  project2 =
                    (if Project_license project1 = []
                     then project1\<lparr>Project_license := license_from_repo repo_info\<rparr>
                     else project1)
              in Inr project2))
      else Inr project)"

text \<open>The loop that downloads every asset and stores its checksum; \<open>compute_sha256\<close> is
  the download, which may raise.\<close>

fun checksum_assets ::
  "(string \<Rightarrow> error + string) \<Rightarrow> (string \<times> Asset) list \<Rightarrow> error + (string \<times> Asset) list" where
  "checksum_assets compute_sha256 [] = Inr []"
| "checksum_assets compute_sha256 ((platform, asset) # rest) =
     (case compute_sha256 (Asset_url asset) of
        Inl e \<Rightarrow> Inl e
      | Inr digest \<Rightarrow>
          (case checksum_assets compute_sha256 rest of
             Inl e \<Rightarrow> Inl e
           | Inr rest' \<Rightarrow> Inr ((platform, asset\<lparr>Asset_sha256 := digest\<rparr>) # rest')))"

text \<open>The loop over \<^verbatim>\<open>versions_to_keep\<close> that fills \<^verbatim>\<open>generated_releases\<close>.\<close>

fun process_versions ::
  "string list \<Rightarrow> (string \<times> release_data) list \<Rightarrow> Project \<Rightarrow> (string \<Rightarrow> error + string) \<Rightarrow>
   (string \<times> Release) list \<Rightarrow> error + (string \<times> Release) list" where
  "process_versions [] releases_by_minor project compute_sha256 generated_releases =
     Inr generated_releases"
| "process_versions (major_minor # rest) releases_by_minor project compute_sha256
     generated_releases =
     (case map_of releases_by_minor major_minor of
        None \<Rightarrow> Inl KeyError
      | Some release_data \<Rightarrow>
          (let tag = rd_tag_name release_data;
               version = extract_version tag;
               assets = find_release_assets release_data project
           in if assets = [] then
                process_versions rest releases_by_minor project compute_sha256 generated_releases
              else
                (case checksum_assets compute_sha256 assets of
                   Inl e \<Rightarrow> Inl e
                 | Inr assets' \<Rightarrow>
                     (let release = \<lparr>Release_tag = tag, Release_version = version,
                                     Release_major_minor = major_minor,
                                     Release_assets = assets'\<rparr>
                      in process_versions rest releases_by_minor project compute_sha256
                           (dict_set major_minor release generated_releases)))))"

text \<open>The loop that writes the formulas. In a dry run the formulas are printed, and the
  directory stays as it is.\<close>

fun write_formulas ::
  "(string \<times> Release) list \<Rightarrow> string \<Rightarrow> Project \<Rightarrow> bool \<Rightarrow> directory \<Rightarrow> directory" where
  "write_formulas [] latest_version project dry_run formula_dir = formula_dir"
| "write_formulas ((major_minor, release) # rest) latest_version project dry_run formula_dir =
     (let is_latest = (major_minor = latest_version);
          formula_dir1 =
            (if is_latest \<and> \<not> dry_run
             then write_file (Project_name project @ ''.rb'')
                    (generate_formula project release False) formula_dir
             else formula_dir);
          formula_dir2 =
            (if Project_keep_versions project > 0 \<and> \<not> dry_run
             then write_file (Project_name project @ ''@'' @ major_minor @ ''.rb'')
                    (generate_formula project release True) formula_dir1
             else formula_dir1)
      in write_formulas rest latest_version project dry_run formula_dir2)"

text \<open>
  \<^verbatim>\<open>process_project\<close>: the value returned and the directory afterwards. Every exception
  is caught and makes the result \<^verbatim>\<open>False\<close>; the files written before it stay.
\<close>

definition process_project ::
  "Project \<Rightarrow> GitHubAPI \<Rightarrow> (string \<Rightarrow> error + string) \<Rightarrow> (string \<Rightarrow> string \<Rightarrow> bool) \<Rightarrow>
   directory \<Rightarrow> bool \<Rightarrow> bool \<times> directory" where
  "process_project project0 github compute_sha256 glob formula_dir dry_run =
     (case fill_repo_info project0 github of
        Inl e \<Rightarrow> (False, formula_dir)
      | Inr project \<Rightarrow>
     (case get_releases github (Project_repo project) 30 of
        Inl e \<Rightarrow> (False, formula_dir)
      | Inr releases_data \<Rightarrow>
     if releases_data = [] then (False, formula_dir)
     else
       (let releases_by_minor = group_releases releases_data [] in
        if releases_by_minor = [] then (False, formula_dir)
        else
     (case sorted_versions (map fst releases_by_minor) of
        Inl e \<Rightarrow> (False, formula_dir)
      | Inr sorted_vs \<Rightarrow>
     (case sorted_vs of
        [] \<Rightarrow> (False, formula_dir)
      | latest_version # _ \<Rightarrow>
     (case process_versions (versions_to_keep sorted_vs project) releases_by_minor project
             compute_sha256 [] of
        Inl e \<Rightarrow> (False, formula_dir)
      | Inr generated_releases \<Rightarrow>
     if generated_releases = [] then (False, formula_dir)
     else
       (let formula_dir1 =
              write_formulas generated_releases latest_version project dry_run formula_dir
        in if Project_keep_versions project > 0 then
             (let st = cleanup_old_versions glob formula_dir1 (Project_name project)
                         (map fst generated_releases) dry_run
              in (cs_raised st = None, cs_dir st))
           else (True, formula_dir1))))))))"

section \<open>Notions used in the statements\<close>

text \<open>A lower-case name ends with one of the archive extensions.\<close>

definition has_archive_extension :: "string \<Rightarrow> bool" where
  "has_archive_extension name_lower =
     list_ex (\<lambda>ext. endswith name_lower ext) ARCHIVE_EXTENSIONS"

text \<open>Some pattern of the platform's group in \<^verbatim>\<open>PLATFORM_PATTERNS\<close> is found in the
  name.\<close>

definition group_matches :: "string \<Rightarrow> string \<Rightarrow> bool" where
  "group_matches platform name_lower =
     (case map_of PLATFORM_PATTERNS platform of
        None \<Rightarrow> False
      | Some patterns \<Rightarrow> list_ex (\<lambda>pattern. re_search pattern name_lower) patterns)"

text \<open>The parts of an OS block: the line that opens the architecture branch, and the
  \<^verbatim>\<open>url\<close> and \<^verbatim>\<open>sha256\<close> statements at any indentation.\<close>

definition arch_branch :: string where
  "arch_branch = ''    if Hardware::CPU.arm?\<newline>''"

definition unindent :: "string \<Rightarrow> string" where
  "unindent s = dropWhile (\<lambda>c. c = CHR '' '') s"

definition is_url_stmt :: "string \<Rightarrow> bool" where
  \<open>is_url_stmt s = startswith (unindent s) ''url "''\<close>

definition is_sha256_stmt :: "string \<Rightarrow> bool" where
  \<open>is_sha256_stmt s = startswith (unindent s) ''sha256 "''\<close>

definition has_arch_branch :: "string list \<Rightarrow> bool" where
  "has_arch_branch block = (arch_branch \<in> set block)"

text \<open>A block with one \<^verbatim>\<open>url\<close> statement, one \<^verbatim>\<open>sha256\<close> statement and no
  architecture branch.\<close>

definition single_unconditional_pair :: "string list \<Rightarrow> bool" where
  "single_unconditional_pair block =
     (length (filter is_url_stmt block) = 1 \<and> length (filter is_sha256_stmt block) = 1 \<and>
      \<not> has_arch_branch block)"

text \<open>The release has an asset for the platform slot.\<close>

definition has_asset :: "Release \<Rightarrow> string \<Rightarrow> bool" where
  "has_asset release platform = (map_of (Release_assets release) platform \<noteq> None)"

text \<open>
  The platform slots that an asset name matches, in the order in which they are tested:
  with custom patterns, the slots whose pattern is contained in the name; otherwise, for a
  name with an archive extension, the slots whose pattern group matches.
\<close>

definition matching_slots :: "Project \<Rightarrow> string \<Rightarrow> string list" where
  "matching_slots project name =
     (if Project_asset_patterns project \<noteq> [] then
        map fst (filter (\<lambda>item. match_asset_pattern name (snd item))
                   (Project_asset_patterns project))
      else if has_archive_extension (lower name) then
        filter (\<lambda>platform. group_matches platform (lower name)) (map fst PLATFORM_PATTERNS)
      else [])"




text \<open>
  A file name in which the regular expression of the cleanup finds a minor that is not
  retained; and a stale file, one that the glob of the project's pinned formulas lists
  and that is outdated.
\<close>

definition outdated :: "string \<Rightarrow> string list \<Rightarrow> string \<Rightarrow> bool" where
  "outdated project_name keep_versions file_name =
     (case search_version project_name file_name of
        None \<Rightarrow> False
      | Some version \<Rightarrow> version \<notin> set keep_versions)"

definition stale ::
  "(string \<Rightarrow> string \<Rightarrow> bool) \<Rightarrow> string \<Rightarrow> string list \<Rightarrow> string \<Rightarrow> bool" where
  "stale glob project_name keep_versions file_name =
     (glob (project_name @ ''@*.rb'') file_name \<and>
      outdated project_name keep_versions file_name)"

text \<open>
  The release that \<^verbatim>\<open>process_project\<close> builds for a minor: tag and version of the release
  kept for the minor, and its matched assets with their checksums.
\<close>

definition built ::
  "(string \<times> release_data) list \<Rightarrow> Project \<Rightarrow> (string \<Rightarrow> error + string) \<Rightarrow>
   string \<Rightarrow> Release \<Rightarrow> bool" where
  "built releases_by_minor project compute_sha256 major_minor release =
     (case map_of releases_by_minor major_minor of
        None \<Rightarrow> False
      | Some release_data \<Rightarrow>
          (case checksum_assets compute_sha256 (find_release_assets release_data project) of
             Inl e \<Rightarrow> False
           | Inr assets \<Rightarrow>
               release = \<lparr>Release_tag = rd_tag_name release_data,
                          Release_version = extract_version (rd_tag_name release_data),
                          Release_major_minor = major_minor,
                          Release_assets = assets\<rparr>))"

text \<open>
  The \<^verbatim>\<open>url\<close> of a formula is a string of the package manager's language: at install
  time each \<^verbatim>\<open>#{version}\<close> in it is replaced by the declared version. \<open>installed_url\<close>
  is the URL that results for an asset of a release.
\<close>

definition eval_template :: "string \<Rightarrow> string \<Rightarrow> string" where
  "eval_template s version = replace s ''#{version}'' version"

definition installed_url :: "Asset \<Rightarrow> Release \<Rightarrow> string" where
  "installed_url asset release =
     eval_template (rendered_url asset release) (Release_version release)"

section \<open>Example data\<close>

definition example_asset :: "string \<Rightarrow> Asset" where
  "example_asset name =
     \<lparr>Asset_name = name, Asset_url = ''https://example.org/download/v2.1.0/'' @ name,
      Asset_sha256 = ''00''\<rparr>"

definition example_release :: "(string \<times> Asset) list \<Rightarrow> Release" where
  "example_release assets =
     \<lparr>Release_tag = ''v2.1.0'', Release_version = ''2.1.0'', Release_major_minor = ''2.1'',
      Release_assets = assets\<rparr>"

text \<open>A project as \<^verbatim>\<open>load_config\<close> makes it from a bare repository name, with a
  retention count.\<close>

definition example_project :: "int \<Rightarrow> Project" where
  "example_project keep =
     \<lparr>Project_repo = ''owner/tool'', Project_name = ''tool'', Project_description = [],
      Project_license = [], Project_homepage = ''https://github.com/owner/tool'',
      Project_binary_name = ''tool'', Project_keep_versions = keep,
      Project_asset_patterns = []\<rparr>"

definition example_release_data :: "string \<Rightarrow> string list \<Rightarrow> release_data" where
  "example_release_data tag names =
     \<lparr>rd_tag_name = tag, rd_prerelease = False, rd_draft = False,
      rd_assets = map (\<lambda>name. \<lparr>ad_name = name,
        ad_browser_download_url = ''https://example.org/download/'' @ tag @ ''/'' @ name\<rparr>) names\<rparr>"

text \<open>A repository without description and license, and the releases given.\<close>

definition example_github :: "release_data list \<Rightarrow> GitHubAPI" where
  "example_github releases =
     \<lparr>get_repo = (\<lambda>repo. Inr \<lparr>ri_description = None, ri_license = LicenseNull\<rparr>),
      get_releases = (\<lambda>repo per_page. Inr releases)\<rparr>"

definition example_custom_project :: Project where
  "example_custom_project =
     (example_project 0)\<lparr>Project_asset_patterns :=
        [(''macos_arm64'', ''darwin''), (''macos_x86_64'', ''amd64'')]\<rparr>"




text \<open>A formula directory with the canonical formula, three pinned formulas of the
  project and a pinned formula of another project.\<close>

definition example_dir :: directory where
  "example_dir =
     [(''tool.rb'', ''latest''), (''tool@2.1.rb'', ''a''), (''tool@2.0.rb'', ''b''),
      (''tool@1.9.rb'', ''c''), (''other@1.9.rb'', ''d'')]"

text \<open>Downloads that succeed, the example project after the metadata step, and two
  release lists: one whose latest minor has no archive, one whose second minor has none.\<close>

definition example_sha256 :: "string \<Rightarrow> error + string" where
  "example_sha256 url = Inr ''00''"

definition example_filled_project :: "int \<Rightarrow> Project" where
  "example_filled_project keep =
     (example_project keep)\<lparr>Project_description := ''tool CLI tool'',
                             Project_license := ''MIT''\<rparr>"

definition releases_latest_skipped :: "release_data list" where
  "releases_latest_skipped =
     [example_release_data ''v2.1.0'' [''tool.sig''],
      example_release_data ''v2.0.3'' [''tool-linux-amd64.tgz'']]"

definition releases_older_skipped :: "release_data list" where
  "releases_older_skipped =
     [example_release_data ''v2.1.0'' [''tool-linux-amd64.tgz''],
      example_release_data ''v2.0.3'' [''tool.sig''],
      example_release_data ''v1.9.0'' [''tool-linux-amd64.tgz'']]"

text \<open>
  Releases whose tags are major numbers only, before and after the release \<^verbatim>\<open>v4\<close>, and
  two runs of the program with one older minor kept: the first on an empty directory, the
  second on the directory that the first leaves.
\<close>

definition releases_majors_old :: "release_data list" where
  "releases_majors_old =
     [example_release_data ''v3'' [''tool-linux-amd64.tgz''],
      example_release_data ''v2'' [''tool-linux-amd64.tgz'']]"

definition releases_majors_new :: "release_data list" where
  "releases_majors_new =
     example_release_data ''v4'' [''tool-linux-amd64.tgz''] # releases_majors_old"

definition first_majors_run :: "bool \<times> directory" where
  "first_majors_run =
     process_project (example_project 1) (example_github releases_majors_old)
       example_sha256 fnmatch [] False"

definition second_majors_run :: "bool \<times> directory" where
  "second_majors_run =
     process_project (example_project 1) (example_github releases_majors_new)
       example_sha256 fnmatch (snd first_majors_run) False"

text \<open>A release whose tag has no prefix letter, as the program builds it, and an asset
  of it.\<close>

definition unprefixed_release :: Release where
  "unprefixed_release =
     \<lparr>Release_tag = ''1.2.3'', Release_version = extract_version ''1.2.3'',
      Release_major_minor = extract_major_minor (extract_version ''1.2.3''),
      Release_assets = []\<rparr>"

definition unprefixed_asset :: Asset where
  "unprefixed_asset =
     \<lparr>Asset_name = ''tool-linux-amd64.tgz'',
      Asset_url = ''https://example.org/download/1.2.3/tool-linux-amd64.tgz'',
      Asset_sha256 = ''00''\<rparr>"

section \<open>Built-in platform detection\<close>

lemma first_pattern_list_ex:
  "first_pattern patterns n = list_ex (\<lambda>pattern. re_search pattern n) patterns"
  by (induction patterns) auto

lemma detect_platform_if:
  "detect_platform asset_name =
     (let n = lower asset_name in
      if \<not> has_archive_extension n then None
      else if group_matches ''macos_arm64'' n then Some ''macos_arm64''
      else if group_matches ''macos_x86_64'' n then Some ''macos_x86_64''
      else if group_matches ''linux_arm64'' n then Some ''linux_arm64''
      else if group_matches ''linux_x86_64'' n then Some ''linux_x86_64''
      else None)"
  unfolding detect_platform_def has_archive_extension_def group_matches_def Let_def
  by (simp add: PLATFORM_PATTERNS_def first_pattern_list_ex)

text \<open>
  Claim C7. \<^verbatim>\<open>detect_platform\<close> returns nothing when the lower-case name has no archive
  extension. Otherwise it returns the first of macOS-ARM64, macOS-x86_64, Linux-ARM64 and
  Linux-x86_64, in this order, whose pattern group matches the lower-case name, and
  nothing when no group matches. The name \<^verbatim>\<open>tool-darwin-arm64.tar.gz\<close> is macOS-ARM64
  and \<^verbatim>\<open>tool-darwin-arm64.sig\<close> is nothing.
\<close>

theorem detect_platform_priority:
  "detect_platform asset_name =
     (let n = lower asset_name in
      if \<not> has_archive_extension n then None
      else if group_matches ''macos_arm64'' n then Some ''macos_arm64''
      else if group_matches ''macos_x86_64'' n then Some ''macos_x86_64''
      else if group_matches ''linux_arm64'' n then Some ''linux_arm64''
      else if group_matches ''linux_x86_64'' n then Some ''linux_x86_64''
      else None)
   \<and> detect_platform ''tool-darwin-arm64.tar.gz'' = Some ''macos_arm64''
   \<and> detect_platform ''tool-darwin-arm64.sig'' = None"
proof -
  have archive: "detect_platform ''tool-darwin-arm64.tar.gz'' = Some ''macos_arm64''"
    by code_simp
  have signature: "detect_platform ''tool-darwin-arm64.sig'' = None"
    by code_simp
  from detect_platform_if [of asset_name] archive signature show ?thesis by blast
qed

theorem detect_platform_priority_witness:
  "has_archive_extension (lower ''Tool-Linux-AMD64.tgz'') \<and>
   \<not> group_matches ''macos_arm64'' (lower ''Tool-Linux-AMD64.tgz'') \<and>
   \<not> group_matches ''macos_x86_64'' (lower ''Tool-Linux-AMD64.tgz'') \<and>
   \<not> group_matches ''linux_arm64'' (lower ''Tool-Linux-AMD64.tgz'') \<and>
   group_matches ''linux_x86_64'' (lower ''Tool-Linux-AMD64.tgz'') \<and>
   detect_platform ''Tool-Linux-AMD64.tgz'' = Some ''linux_x86_64''"
proof -
  have a: "has_archive_extension (lower ''Tool-Linux-AMD64.tgz'')" by code_simp
  have b: "\<not> group_matches ''macos_arm64'' (lower ''Tool-Linux-AMD64.tgz'')" by code_simp
  have c: "\<not> group_matches ''macos_x86_64'' (lower ''Tool-Linux-AMD64.tgz'')" by code_simp
  have d: "\<not> group_matches ''linux_arm64'' (lower ''Tool-Linux-AMD64.tgz'')" by code_simp
  have e: "group_matches ''linux_x86_64'' (lower ''Tool-Linux-AMD64.tgz'')" by code_simp
  show ?thesis
    using detect_platform_priority [of "''Tool-Linux-AMD64.tgz''"] a b c d e
    by (simp add: Let_def)
qed

section \<open>Version extraction\<close>

lemma extract_version_dropWhile:
  "extract_version tag = dropWhile (\<lambda>c. c = CHR ''v'') tag"
  by (simp add: extract_version_def lstrip_def)

text \<open>A tag that does not start with \<^verbatim>\<open>v\<close> is returned as it is, and one \<^verbatim>\<open>v\<close> before
  a text that does not start with \<^verbatim>\<open>v\<close> is removed.\<close>

lemma extract_version_no_prefix:
  "\<not> startswith tag ''v'' \<Longrightarrow> extract_version tag = tag"
  by (cases tag) (auto simp: extract_version_dropWhile)

lemma extract_version_one_v:
  "\<not> startswith rest ''v'' \<Longrightarrow> extract_version (CHR ''v'' # rest) = rest"
  by (cases rest) (auto simp: extract_version_dropWhile)

lemma dropWhile_not_head:
  "dropWhile P xs = y # ys \<Longrightarrow> \<not> P y"
  by (induction xs) (auto split: if_splits)

text \<open>The version never starts with \<^verbatim>\<open>v\<close>: every leading \<^verbatim>\<open>v\<close> is gone.\<close>

lemma extract_version_never_v:
  "\<not> startswith (extract_version tag) ''v''"
proof (cases "extract_version tag")
  case Nil
  then show ?thesis by simp
next
  case (Cons y ys)
  then have "y \<noteq> CHR ''v''"
    unfolding extract_version_dropWhile by (auto dest: dropWhile_not_head)
  with Cons show ?thesis by simp
qed

text \<open>
  Claim C4. For a tag that begins with the prefix letter \<^verbatim>\<open>v\<close>, version extraction is to
  remove that one letter and nothing else, and to return any other tag unchanged. On the
  tag \<^verbatim>\<open>vv1.0\<close> the function removes two letters: \<^verbatim>\<open>lstrip\<close> drops every leading
  \<^verbatim>\<open>v\<close>, so the result is \<^verbatim>\<open>1.0\<close> and not \<^verbatim>\<open>v1.0\<close>.
\<close>

theorem extract_version_strips_every_v:
  "extract_version ''vv1.0'' = ''1.0'' \<and> extract_version ''vv1.0'' \<noteq> ''v1.0''"
  by (simp add: extract_version_def lstrip_def)

section \<open>Retention window\<close>

lemma versions_to_keep_take:
  "0 \<le> Project_keep_versions project \<Longrightarrow>
   versions_to_keep vs project = take (nat (Project_keep_versions project) + 1) vs"
  by (simp add: versions_to_keep_def slice_to_def nat_add_distrib)

text \<open>
  Claim C6. For every list of minors in descending order and every retention count
  \<open>keep_versions \<ge> 0\<close>, the minors retained are the first \<open>keep_versions + 1\<close> entries
  of the list, or all of them when there are fewer. With \<open>keep_versions = 0\<close> and at least
  one minor, exactly one is retained, the first. With \<open>keep_versions = 1\<close> and the minors
  2.1, 2.0, 1.9, 1.8 (and any more), exactly 2.1 and 2.0 are retained.
\<close>

theorem versions_to_keep_window:
  "0 \<le> Project_keep_versions project \<Longrightarrow>
     versions_to_keep vs project = take (nat (Project_keep_versions project) + 1) vs
   \<and> length (versions_to_keep vs project) =
       min (nat (Project_keep_versions project) + 1) (length vs)
   \<and> (length vs \<le> nat (Project_keep_versions project) + 1 \<longrightarrow>
        versions_to_keep vs project = vs)
   \<and> (Project_keep_versions project = 0 \<and> vs \<noteq> [] \<longrightarrow>
        versions_to_keep vs project = [hd vs])
   \<and> (Project_keep_versions project = 1 \<longrightarrow>
        versions_to_keep (''2.1'' # ''2.0'' # ''1.9'' # ''1.8'' # vs) project = [''2.1'', ''2.0''])"
proof -
  assume nonneg: "0 \<le> Project_keep_versions project"
  note eq = versions_to_keep_take [OF nonneg]
  have a: "length (versions_to_keep vs project) =
      min (nat (Project_keep_versions project) + 1) (length vs)"
    unfolding eq by (simp add: min.commute)
  have b: "length vs \<le> nat (Project_keep_versions project) + 1 \<longrightarrow>
      versions_to_keep vs project = vs"
    unfolding eq by simp
  have c: "Project_keep_versions project = 0 \<and> vs \<noteq> [] \<longrightarrow>
      versions_to_keep vs project = [hd vs]"
    unfolding eq by (cases vs) simp_all
  have d: "Project_keep_versions project = 1 \<longrightarrow>
      versions_to_keep (''2.1'' # ''2.0'' # ''1.9'' # ''1.8'' # vs) project = [''2.1'', ''2.0'']"
    unfolding eq by (simp add: numeral_2_eq_2)
  from eq a b c d show ?thesis by blast
qed

theorem versions_to_keep_window_witness:
  "0 \<le> Project_keep_versions (example_project 1)
   \<and> versions_to_keep [''2.1'', ''2.0'', ''1.9'', ''1.8''] (example_project 1) = [''2.1'', ''2.0'']
   \<and> versions_to_keep [''2.1'', ''2.0'', ''1.9'', ''1.8''] (example_project 0) = [''2.1'']
   \<and> versions_to_keep [''2.1'', ''2.0''] (example_project 5) = [''2.1'', ''2.0'']"
  using versions_to_keep_window [of "example_project 1" "[]"]
        versions_to_keep_window [of "example_project 0" "[''2.1'', ''2.0'', ''1.9'', ''1.8'']"]
        versions_to_keep_window [of "example_project 5" "[''2.1'', ''2.0'']"]
  by (simp add: example_project_def)

section \<open>The OS blocks of a formula\<close>

lemma url_stmt_4 [simp]:
  "is_url_stmt (url_stmt ''    '' a r)"
  "\<not> is_sha256_stmt (url_stmt ''    '' a r)"
  by (simp_all add: is_url_stmt_def is_sha256_stmt_def url_stmt_def unindent_def)

lemma url_stmt_6 [simp]:
  "is_url_stmt (url_stmt ''      '' a r)"
  "\<not> is_sha256_stmt (url_stmt ''      '' a r)"
  by (simp_all add: is_url_stmt_def is_sha256_stmt_def url_stmt_def unindent_def)

lemma sha256_stmt_4 [simp]:
  "\<not> is_url_stmt (sha256_stmt ''    '' a)"
  "is_sha256_stmt (sha256_stmt ''    '' a)"
  by (simp_all add: is_url_stmt_def is_sha256_stmt_def sha256_stmt_def unindent_def)

lemma sha256_stmt_6 [simp]:
  "\<not> is_url_stmt (sha256_stmt ''      '' a)"
  "is_sha256_stmt (sha256_stmt ''      '' a)"
  by (simp_all add: is_url_stmt_def is_sha256_stmt_def sha256_stmt_def unindent_def)

lemma fixed_lines [simp]:
  "\<not> is_url_stmt ''  on_macos do\<newline>''" "\<not> is_sha256_stmt ''  on_macos do\<newline>''"
  "\<not> is_url_stmt ''  on_linux do\<newline>''" "\<not> is_sha256_stmt ''  on_linux do\<newline>''"
  "\<not> is_url_stmt ''  end\<newline>\<newline>''" "\<not> is_sha256_stmt ''  end\<newline>\<newline>''"
  "\<not> is_url_stmt ''    else\<newline>''" "\<not> is_sha256_stmt ''    else\<newline>''"
  "\<not> is_url_stmt ''    end\<newline>''" "\<not> is_sha256_stmt ''    end\<newline>''"
  "\<not> is_url_stmt arch_branch" "\<not> is_sha256_stmt arch_branch"
  by (simp_all add: is_url_stmt_def is_sha256_stmt_def unindent_def arch_branch_def)

lemma arch_branch_neq [simp]:
  "arch_branch \<noteq> url_stmt ''    '' a r" "arch_branch \<noteq> url_stmt ''      '' a r"
  "arch_branch \<noteq> sha256_stmt ''    '' b" "arch_branch \<noteq> sha256_stmt ''      '' b"
  "arch_branch \<noteq> ''  on_macos do\<newline>''" "arch_branch \<noteq> ''  on_linux do\<newline>''"
  "arch_branch \<noteq> ''  end\<newline>\<newline>''"
  by (simp_all add: url_stmt_def sha256_stmt_def arch_branch_def)

text \<open>The three shapes of each block.\<close>

lemma macos_block_cases:
  "macos_block r =
    (case (map_of (Release_assets r) ''macos_arm64'', map_of (Release_assets r) ''macos_x86_64'') of
       (Some arm, Some x86) \<Rightarrow>
          [''  on_macos do\<newline>'', arch_branch,
           url_stmt ''      '' arm r, sha256_stmt ''      '' arm, ''    else\<newline>'',
           url_stmt ''      '' x86 r, sha256_stmt ''      '' x86, ''    end\<newline>'',
           ''  end\<newline>\<newline>'']
     | (Some arm, None) \<Rightarrow>
          [''  on_macos do\<newline>'', url_stmt ''    '' arm r, sha256_stmt ''    '' arm,
           ''  end\<newline>\<newline>'']
     | (None, Some x86) \<Rightarrow>
          [''  on_macos do\<newline>'', url_stmt ''    '' x86 r, sha256_stmt ''    '' x86,
           ''  end\<newline>\<newline>'']
     | (None, None) \<Rightarrow> [])"
  by (simp add: macos_block_def arch_branch_def Let_def split: option.splits)

lemma linux_block_cases:
  "linux_block r =
    (case (map_of (Release_assets r) ''linux_arm64'', map_of (Release_assets r) ''linux_x86_64'') of
       (Some arm, Some x86) \<Rightarrow>
          [''  on_linux do\<newline>'', arch_branch,
           url_stmt ''      '' arm r, sha256_stmt ''      '' arm, ''    else\<newline>'',
           url_stmt ''      '' x86 r, sha256_stmt ''      '' x86, ''    end\<newline>'',
           ''  end\<newline>\<newline>'']
     | (Some arm, None) \<Rightarrow>
          [''  on_linux do\<newline>'', url_stmt ''    '' arm r, sha256_stmt ''    '' arm,
           ''  end\<newline>\<newline>'']
     | (None, Some x86) \<Rightarrow>
          [''  on_linux do\<newline>'', url_stmt ''    '' x86 r, sha256_stmt ''    '' x86,
           ''  end\<newline>\<newline>'']
     | (None, None) \<Rightarrow> [])"
  by (simp add: linux_block_def arch_branch_def Let_def split: option.splits)

lemma macos_block_shape:
  "(has_arch_branch (macos_block r) \<longleftrightarrow>
      has_asset r ''macos_arm64'' \<and> has_asset r ''macos_x86_64'') \<and>
   (single_unconditional_pair (macos_block r) \<longleftrightarrow>
      has_asset r ''macos_arm64'' \<noteq> has_asset r ''macos_x86_64'') \<and>
   (macos_block r = [] \<longleftrightarrow>
      \<not> has_asset r ''macos_arm64'' \<and> \<not> has_asset r ''macos_x86_64'')"
  unfolding macos_block_cases has_asset_def single_unconditional_pair_def has_arch_branch_def
  by (simp split: option.splits)

lemma linux_block_shape:
  "(has_arch_branch (linux_block r) \<longleftrightarrow>
      has_asset r ''linux_arm64'' \<and> has_asset r ''linux_x86_64'') \<and>
   (single_unconditional_pair (linux_block r) \<longleftrightarrow>
      has_asset r ''linux_arm64'' \<noteq> has_asset r ''linux_x86_64'') \<and>
   (linux_block r = [] \<longleftrightarrow>
      \<not> has_asset r ''linux_arm64'' \<and> \<not> has_asset r ''linux_x86_64'')"
  unfolding linux_block_cases has_asset_def single_unconditional_pair_def has_arch_branch_def
  by (simp split: option.splits)

text \<open>
  Claim C8. For every project and release, the rendered formula is the header, the macOS
  block, the Linux block and the install block, in this order. When the release has both
  architecture assets of an OS, the block of that OS is a runtime architecture branch: the
  \<^verbatim>\<open>url\<close> and \<^verbatim>\<open>sha256\<close> of the ARM64 asset under \<^verbatim>\<open>if Hardware::CPU.arm?\<close>, those of
  the x86_64 asset under \<^verbatim>\<open>else\<close>. When it has exactly one of them, the block is the
  \<^verbatim>\<open>url\<close> and \<^verbatim>\<open>sha256\<close> of that asset, unconditionally. When it has neither, the block
  is absent. Each \<^verbatim>\<open>url\<close> is the asset's URL with the release tag replaced by
  \<^verbatim>\<open>v#{version}\<close>, each \<^verbatim>\<open>sha256\<close> the asset's checksum. So a block has an architecture
  branch exactly when both assets exist, a single unconditional pair exactly when exactly
  one exists, and is absent exactly when neither exists.
\<close>

theorem os_block_structure:
  \<open>generate_formula project release is_versioned =
     formula_header project release is_versioned @ concat (macos_block release) @
     concat (linux_block release) @ install_block project
   \<and> macos_block release =
       (case map_of (Release_assets release) ''macos_arm64'' of
          Some arm \<Rightarrow>
            (case map_of (Release_assets release) ''macos_x86_64'' of
               Some x86 \<Rightarrow>
                 [''  on_macos do\<newline>'',
                  ''    if Hardware::CPU.arm?\<newline>'',
                  ''      url "'' @
                    replace (Asset_url arm) (Release_tag release) ''v#{version}'' @ ''"\<newline>'',
                  ''      sha256 "'' @ Asset_sha256 arm @ ''"\<newline>'',
                  ''    else\<newline>'',
                  ''      url "'' @
                    replace (Asset_url x86) (Release_tag release) ''v#{version}'' @ ''"\<newline>'',
                  ''      sha256 "'' @ Asset_sha256 x86 @ ''"\<newline>'',
                  ''    end\<newline>'',
                  ''  end\<newline>\<newline>'']
             | None \<Rightarrow>
                 [''  on_macos do\<newline>'',
                  ''    url "'' @
                    replace (Asset_url arm) (Release_tag release) ''v#{version}'' @ ''"\<newline>'',
                  ''    sha256 "'' @ Asset_sha256 arm @ ''"\<newline>'',
                  ''  end\<newline>\<newline>''])
        | None \<Rightarrow>
            (case map_of (Release_assets release) ''macos_x86_64'' of
               Some x86 \<Rightarrow>
                 [''  on_macos do\<newline>'',
                  ''    url "'' @
                    replace (Asset_url x86) (Release_tag release) ''v#{version}'' @ ''"\<newline>'',
                  ''    sha256 "'' @ Asset_sha256 x86 @ ''"\<newline>'',
                  ''  end\<newline>\<newline>'']
             | None \<Rightarrow> []))
   \<and> linux_block release =
       (case map_of (Release_assets release) ''linux_arm64'' of
          Some arm \<Rightarrow>
            (case map_of (Release_assets release) ''linux_x86_64'' of
               Some x86 \<Rightarrow>
                 [''  on_linux do\<newline>'',
                  ''    if Hardware::CPU.arm?\<newline>'',
                  ''      url "'' @
                    replace (Asset_url arm) (Release_tag release) ''v#{version}'' @ ''"\<newline>'',
                  ''      sha256 "'' @ Asset_sha256 arm @ ''"\<newline>'',
                  ''    else\<newline>'',
                  ''      url "'' @
                    replace (Asset_url x86) (Release_tag release) ''v#{version}'' @ ''"\<newline>'',
                  ''      sha256 "'' @ Asset_sha256 x86 @ ''"\<newline>'',
                  ''    end\<newline>'',
                  ''  end\<newline>\<newline>'']
             | None \<Rightarrow>
                 [''  on_linux do\<newline>'',
                  ''    url "'' @
                    replace (Asset_url arm) (Release_tag release) ''v#{version}'' @ ''"\<newline>'',
                  ''    sha256 "'' @ Asset_sha256 arm @ ''"\<newline>'',
                  ''  end\<newline>\<newline>''])
        | None \<Rightarrow>
            (case map_of (Release_assets release) ''linux_x86_64'' of
               Some x86 \<Rightarrow>
                 [''  on_linux do\<newline>'',
                  ''    url "'' @
                    replace (Asset_url x86) (Release_tag release) ''v#{version}'' @ ''"\<newline>'',
                  ''    sha256 "'' @ Asset_sha256 x86 @ ''"\<newline>'',
                  ''  end\<newline>\<newline>'']
             | None \<Rightarrow> []))
   \<and> (has_arch_branch (macos_block release) \<longleftrightarrow>
        has_asset release ''macos_arm64'' \<and> has_asset release ''macos_x86_64'')
   \<and> (single_unconditional_pair (macos_block release) \<longleftrightarrow>
        has_asset release ''macos_arm64'' \<noteq> has_asset release ''macos_x86_64'')
   \<and> (macos_block release = [] \<longleftrightarrow>
        \<not> has_asset release ''macos_arm64'' \<and> \<not> has_asset release ''macos_x86_64'')
   \<and> (has_arch_branch (linux_block release) \<longleftrightarrow>
        has_asset release ''linux_arm64'' \<and> has_asset release ''linux_x86_64'')
   \<and> (single_unconditional_pair (linux_block release) \<longleftrightarrow>
        has_asset release ''linux_arm64'' \<noteq> has_asset release ''linux_x86_64'')
   \<and> (linux_block release = [] \<longleftrightarrow>
        \<not> has_asset release ''linux_arm64'' \<and> \<not> has_asset release ''linux_x86_64'')\<close>
proof -
  have whole: "generate_formula project release is_versioned =
     formula_header project release is_versioned @ concat (macos_block release) @
     concat (linux_block release) @ install_block project"
    by (simp add: generate_formula_def formula_parts_def)
  have macos: \<open>macos_block release =
       (case map_of (Release_assets release) ''macos_arm64'' of
          Some arm \<Rightarrow>
            (case map_of (Release_assets release) ''macos_x86_64'' of
               Some x86 \<Rightarrow>
                 [''  on_macos do\<newline>'',
                  ''    if Hardware::CPU.arm?\<newline>'',
                  ''      url "'' @
                    replace (Asset_url arm) (Release_tag release) ''v#{version}'' @ ''"\<newline>'',
                  ''      sha256 "'' @ Asset_sha256 arm @ ''"\<newline>'',
                  ''    else\<newline>'',
                  ''      url "'' @
                    replace (Asset_url x86) (Release_tag release) ''v#{version}'' @ ''"\<newline>'',
                  ''      sha256 "'' @ Asset_sha256 x86 @ ''"\<newline>'',
                  ''    end\<newline>'',
                  ''  end\<newline>\<newline>'']
             | None \<Rightarrow>
                 [''  on_macos do\<newline>'',
                  ''    url "'' @
                    replace (Asset_url arm) (Release_tag release) ''v#{version}'' @ ''"\<newline>'',
                  ''    sha256 "'' @ Asset_sha256 arm @ ''"\<newline>'',
                  ''  end\<newline>\<newline>''])
        | None \<Rightarrow>
            (case map_of (Release_assets release) ''macos_x86_64'' of
               Some x86 \<Rightarrow>
                 [''  on_macos do\<newline>'',
                  ''    url "'' @
                    replace (Asset_url x86) (Release_tag release) ''v#{version}'' @ ''"\<newline>'',
                  ''    sha256 "'' @ Asset_sha256 x86 @ ''"\<newline>'',
                  ''  end\<newline>\<newline>'']
             | None \<Rightarrow> []))\<close>
    by (simp add: macos_block_def url_stmt_def sha256_stmt_def rendered_url_def Let_def
        split: option.splits)
  have linux: \<open>linux_block release =
       (case map_of (Release_assets release) ''linux_arm64'' of
          Some arm \<Rightarrow>
            (case map_of (Release_assets release) ''linux_x86_64'' of
               Some x86 \<Rightarrow>
                 [''  on_linux do\<newline>'',
                  ''    if Hardware::CPU.arm?\<newline>'',
                  ''      url "'' @
                    replace (Asset_url arm) (Release_tag release) ''v#{version}'' @ ''"\<newline>'',
                  ''      sha256 "'' @ Asset_sha256 arm @ ''"\<newline>'',
                  ''    else\<newline>'',
                  ''      url "'' @
                    replace (Asset_url x86) (Release_tag release) ''v#{version}'' @ ''"\<newline>'',
                  ''      sha256 "'' @ Asset_sha256 x86 @ ''"\<newline>'',
                  ''    end\<newline>'',
                  ''  end\<newline>\<newline>'']
             | None \<Rightarrow>
                 [''  on_linux do\<newline>'',
                  ''    url "'' @
                    replace (Asset_url arm) (Release_tag release) ''v#{version}'' @ ''"\<newline>'',
                  ''    sha256 "'' @ Asset_sha256 arm @ ''"\<newline>'',
                  ''  end\<newline>\<newline>''])
        | None \<Rightarrow>
            (case map_of (Release_assets release) ''linux_x86_64'' of
               Some x86 \<Rightarrow>
                 [''  on_linux do\<newline>'',
                  ''    url "'' @
                    replace (Asset_url x86) (Release_tag release) ''v#{version}'' @ ''"\<newline>'',
                  ''    sha256 "'' @ Asset_sha256 x86 @ ''"\<newline>'',
                  ''  end\<newline>\<newline>'']
             | None \<Rightarrow> []))\<close>
    by (simp add: linux_block_def url_stmt_def sha256_stmt_def rendered_url_def Let_def
        split: option.splits)
  from whole macos linux macos_block_shape [of release] linux_block_shape [of release]
  show ?thesis by (intro conjI) simp_all
qed

text \<open>A release with the macOS-x86_64 asset only: the block is the pair of that asset,
  with the tag replaced in the URL, and there is no Linux block. A release with both
  macOS assets: the ARM64 asset stands under the branch, the x86_64 asset under
  \<^verbatim>\<open>else\<close>.\<close>

theorem os_block_structure_witness:
  \<open>macos_block (example_release [(''macos_x86_64'', example_asset ''tool-darwin-amd64.tgz'')]) =
     [''  on_macos do\<newline>'',
      ''    url "https://example.org/download/v#{version}/tool-darwin-amd64.tgz"\<newline>'',
      ''    sha256 "00"\<newline>'',
      ''  end\<newline>\<newline>'']
   \<and> linux_block (example_release [(''macos_x86_64'', example_asset ''tool-darwin-amd64.tgz'')]) = []
   \<and> macos_block (example_release [(''macos_arm64'', example_asset ''tool-darwin-arm64.tgz''),
                                    (''macos_x86_64'', example_asset ''tool-darwin-amd64.tgz'')]) =
     [''  on_macos do\<newline>'',
      ''    if Hardware::CPU.arm?\<newline>'',
      ''      url "https://example.org/download/v#{version}/tool-darwin-arm64.tgz"\<newline>'',
      ''      sha256 "00"\<newline>'',
      ''    else\<newline>'',
      ''      url "https://example.org/download/v#{version}/tool-darwin-amd64.tgz"\<newline>'',
      ''      sha256 "00"\<newline>'',
      ''    end\<newline>'',
      ''  end\<newline>\<newline>'']
   \<and> has_arch_branch
       (macos_block (example_release [(''macos_arm64'', example_asset ''tool-darwin-arm64.tgz''),
                                      (''macos_x86_64'', example_asset ''tool-darwin-amd64.tgz'')]))
   \<and> single_unconditional_pair
       (macos_block (example_release [(''macos_x86_64'', example_asset ''tool-darwin-amd64.tgz'')]))\<close>
proof -
  have amd: "replace ''https://example.org/download/v2.1.0/tool-darwin-amd64.tgz'' ''v2.1.0''
      ''v#{version}'' = ''https://example.org/download/v#{version}/tool-darwin-amd64.tgz''"
    by code_simp
  have arm: "replace ''https://example.org/download/v2.1.0/tool-darwin-arm64.tgz'' ''v2.1.0''
      ''v#{version}'' = ''https://example.org/download/v#{version}/tool-darwin-arm64.tgz''"
    by code_simp
  show ?thesis
    using os_block_structure
          [of "example_project 0"
              "example_release [(''macos_x86_64'', example_asset ''tool-darwin-amd64.tgz'')]" False]
        os_block_structure
          [of "example_project 0"
              "example_release [(''macos_arm64'', example_asset ''tool-darwin-arm64.tgz''),
                                (''macos_x86_64'', example_asset ''tool-darwin-amd64.tgz'')]" False]
    by (elim conjE) (simp add: has_asset_def example_release_def example_asset_def amd arm)
qed

section \<open>The default license\<close>

text \<open>
  Claim C10. For every project whose configuration has no license, when the repository
  metadata is fetched and has no license information (the key is missing, null, or an
  empty object), the first step of processing sets the project's license to \<^verbatim>\<open>MIT\<close>,
  and every formula rendered for the project has the license line \<^verbatim>\<open>license "MIT"\<close>
  after its homepage line.
\<close>

theorem default_license_MIT:
  \<open>Project_license project = [] \<Longrightarrow>
   get_repo github (Project_repo project) = Inr repo_info \<Longrightarrow>
   ri_license repo_info = LicenseMissing \<or> ri_license repo_info = LicenseNull \<or>
   ri_license repo_info = LicenseDict [] \<Longrightarrow>
   \<exists>project'. fill_repo_info project github = Inr project' \<and>
     Project_license project' = ''MIT'' \<and>
     (\<forall>release is_versioned.
        generate_formula project' release is_versioned =
          ''class '' @ class_name project' release is_versioned @ '' < Formula\<newline>'' @
          ''  desc "'' @ Project_description project' @ ''"\<newline>'' @
          ''  homepage "'' @ Project_homepage project' @ ''"\<newline>'' @
          ''  license "MIT"\<newline>'' @
          ''  version "'' @ Release_version release @ ''"\<newline>'' @
          ''\<newline>'' @
          concat (macos_block release) @ concat (linux_block release) @ install_block project')\<close>
proof -
  assume omitted: "Project_license project = []"
    and fetched: "get_repo github (Project_repo project) = Inr repo_info"
    and nolicense: "ri_license repo_info = LicenseMissing \<or> ri_license repo_info = LicenseNull \<or>
      ri_license repo_info = LicenseDict []"
  have mit: "license_from_repo repo_info = ''MIT''"
    using nolicense by (auto simp: license_from_repo_def)
  obtain project' where filled: "fill_repo_info project github = Inr project'"
    and lic: "Project_license project' = ''MIT''"
    using omitted fetched mit by (simp add: fill_repo_info_def Let_def)
  have \<open>generate_formula project' release is_versioned =
          ''class '' @ class_name project' release is_versioned @ '' < Formula\<newline>'' @
          ''  desc "'' @ Project_description project' @ ''"\<newline>'' @
          ''  homepage "'' @ Project_homepage project' @ ''"\<newline>'' @
          ''  license "MIT"\<newline>'' @
          ''  version "'' @ Release_version release @ ''"\<newline>'' @
          ''\<newline>'' @
          concat (macos_block release) @ concat (linux_block release) @ install_block project'\<close>
    for release is_versioned
    by (simp add: generate_formula_def formula_parts_def formula_header_def lic)
  with filled lic show ?thesis by blast
qed

theorem default_license_MIT_witness:
  "Project_license (example_project 0) = []
   \<and> get_repo (example_github []) (Project_repo (example_project 0)) =
       Inr \<lparr>ri_description = None, ri_license = LicenseNull\<rparr>
   \<and> (\<exists>project'. fill_repo_info (example_project 0) (example_github []) = Inr project' \<and>
         Project_license project' = ''MIT'')"
proof -
  have a: "Project_license (example_project 0) = []"
    by (simp add: example_project_def)
  have b: "get_repo (example_github []) (Project_repo (example_project 0)) =
       Inr \<lparr>ri_description = None, ri_license = LicenseNull\<rparr>"
    by (simp add: example_github_def)
  have c: "ri_license \<lparr>ri_description = None, ri_license = LicenseNull\<rparr> = LicenseMissing \<or>
      ri_license \<lparr>ri_description = None, ri_license = LicenseNull\<rparr> = LicenseNull \<or>
      ri_license \<lparr>ri_description = None, ri_license = LicenseNull\<rparr> = LicenseDict []"
    by simp
  from default_license_MIT [OF a b c] a b show ?thesis by blast
qed

section \<open>Asset classification\<close>

lemma custom_platform_first:
  "custom_platform items name =
     (case filter (\<lambda>item. match_asset_pattern name (snd item)) items of
        [] \<Rightarrow> None
      | item # _ \<Rightarrow> Some (fst item))"
  by (induction items name rule: custom_platform.induct) auto

lemma builtin_slots:
  "map fst PLATFORM_PATTERNS =
     [''macos_arm64'', ''macos_x86_64'', ''linux_arm64'', ''linux_x86_64'']"
  by (simp add: PLATFORM_PATTERNS_def)

lemma detect_platform_first:
  "Project_asset_patterns project = [] \<Longrightarrow>
   detect_platform name =
     (case matching_slots project name of [] \<Rightarrow> None | platform # _ \<Rightarrow> Some platform)"
  unfolding detect_platform_if matching_slots_def builtin_slots Let_def
  by simp

lemma detect_platform_nonempty:
  "detect_platform name = Some platform \<Longrightarrow> platform \<noteq> []"
  unfolding detect_platform_if Let_def by (auto split: if_splits)

lemma set_dict_set: "set (dict_set k v d) \<subseteq> insert (k, v) (set d)"
  by (induction k v d rule: dict_set.induct) (auto split: if_splits)

lemma classified_first_slot:
  "custom_platform (Project_asset_patterns project) name = Some platform \<Longrightarrow>
   Project_asset_patterns project \<noteq> [] \<Longrightarrow>
   matching_slots project name \<noteq> [] \<and> platform = hd (matching_slots project name)"
  by (auto simp: custom_platform_first matching_slots_def split: list.splits)

lemma detected_first_slot:
  "detect_platform name = Some platform \<Longrightarrow>
   Project_asset_patterns project = [] \<Longrightarrow>
   matching_slots project name \<noteq> [] \<and> platform = hd (matching_slots project name)"
  by (auto simp: detect_platform_first [of project] split: list.splits)

text \<open>Every entry of the dictionary was there before the loop or comes from an asset of
  the list, under the first slot that the asset's name matches.\<close>

lemma find_release_assets_loop_origin:
  "(platform, asset) \<in> set (find_release_assets_loop as project acc) \<Longrightarrow>
   (platform, asset) \<in> set acc \<or>
   (\<exists>a \<in> set as. asset = new_asset (ad_name a) (ad_browser_download_url a) \<and>
      matching_slots project (ad_name a) \<noteq> [] \<and>
      platform = hd (matching_slots project (ad_name a)))"
proof (induction as arbitrary: acc)
  case Nil
  then show ?case by simp
next
  case (Cons a as)
  show ?case
  proof (cases "Project_asset_patterns project \<noteq> []")
    case True
    show ?thesis
    proof (cases "custom_platform (Project_asset_patterns project) (ad_name a)")
      case None
      with True Cons.prems
      have "(platform, asset) \<in> set (find_release_assets_loop as project acc)"
        by (simp add: Let_def)
      from Cons.IH [OF this] show ?thesis by auto
    next
      case (Some p)
      with True Cons.prems
      have "(platform, asset) \<in> set (find_release_assets_loop as project
           (dict_set p (new_asset (ad_name a) (ad_browser_download_url a)) acc))"
        by (simp add: Let_def)
      from Cons.IH [OF this]
        set_dict_set [of p "new_asset (ad_name a) (ad_browser_download_url a)" acc]
        classified_first_slot [OF Some True]
      show ?thesis by auto
    qed
  next
    case False
    then have nopat: "Project_asset_patterns project = []" by simp
    show ?thesis
    proof (cases "detect_platform (ad_name a)")
      case None
      with nopat Cons.prems
      have "(platform, asset) \<in> set (find_release_assets_loop as project acc)"
        by (simp add: Let_def)
      from Cons.IH [OF this] show ?thesis by auto
    next
      case (Some p)
      with nopat Cons.prems detect_platform_nonempty [OF Some]
      have "(platform, asset) \<in> set (find_release_assets_loop as project
           (dict_set p (new_asset (ad_name a) (ad_browser_download_url a)) acc))"
        by (simp add: Let_def)
      from Cons.IH [OF this]
        set_dict_set [of p "new_asset (ad_name a) (ad_browser_download_url a)" acc]
        detected_first_slot [OF Some nopat]
      show ?thesis by auto
    qed
  qed
qed

text \<open>
  Claim C3, as stated: an asset is in a release's platform-slot mapping only if its name
  matched exactly one platform slot. It fails: the name
  \<^verbatim>\<open>tool-darwin-arm64-amd64.tar.gz\<close> matches the groups of macOS-ARM64 and of
  macOS-x86_64 and is in the mapping, under macOS-ARM64; with the custom patterns
  \<^verbatim>\<open>darwin\<close> for macOS-ARM64 and \<^verbatim>\<open>amd64\<close> for macOS-x86_64, the name
  \<^verbatim>\<open>tool-darwin-amd64.zip\<close> matches both and is in the mapping, under macOS-ARM64.
\<close>

theorem exactly_one_slot_counterexample:
  "find_release_assets (example_release_data ''v2.1.0'' [''tool-darwin-arm64-amd64.tar.gz''])
       (example_project 0) =
     [(''macos_arm64'', new_asset ''tool-darwin-arm64-amd64.tar.gz''
          ''https://example.org/download/v2.1.0/tool-darwin-arm64-amd64.tar.gz'')]
   \<and> matching_slots (example_project 0) ''tool-darwin-arm64-amd64.tar.gz'' =
       [''macos_arm64'', ''macos_x86_64'']
   \<and> find_release_assets (example_release_data ''v2.1.0'' [''tool-darwin-amd64.zip''])
       example_custom_project =
     [(''macos_arm64'', new_asset ''tool-darwin-amd64.zip''
          ''https://example.org/download/v2.1.0/tool-darwin-amd64.zip'')]
   \<and> matching_slots example_custom_project ''tool-darwin-amd64.zip'' =
       [''macos_arm64'', ''macos_x86_64'']"
proof -
  have a: "find_release_assets
       (example_release_data ''v2.1.0'' [''tool-darwin-arm64-amd64.tar.gz''])
       (example_project 0) =
     [(''macos_arm64'', new_asset ''tool-darwin-arm64-amd64.tar.gz''
          ''https://example.org/download/v2.1.0/tool-darwin-arm64-amd64.tar.gz'')]"
    by code_simp
  have b: "matching_slots (example_project 0) ''tool-darwin-arm64-amd64.tar.gz'' =
       [''macos_arm64'', ''macos_x86_64'']"
    by code_simp
  have c: "find_release_assets (example_release_data ''v2.1.0'' [''tool-darwin-amd64.zip''])
       example_custom_project =
     [(''macos_arm64'', new_asset ''tool-darwin-amd64.zip''
          ''https://example.org/download/v2.1.0/tool-darwin-amd64.zip'')]"
    by code_simp
  have d: "matching_slots example_custom_project ''tool-darwin-amd64.zip'' =
       [''macos_arm64'', ''macos_x86_64'']"
    by code_simp
  from a b c d show ?thesis by blast
qed

text \<open>
  Claim C3, amended. For every release and project, with built-in detection and with
  custom patterns alike, an asset is in the release's platform-slot mapping only if it is
  an asset of the release whose name matched at least one platform slot, and it stands
  under the first slot, in the order of testing, that its name matches.
\<close>

theorem asset_under_first_matching_slot:
  "(platform, asset) \<in> set (find_release_assets release_data project) \<Longrightarrow>
   \<exists>a \<in> set (rd_assets release_data).
      asset = new_asset (ad_name a) (ad_browser_download_url a) \<and>
      matching_slots project (ad_name a) \<noteq> [] \<and>
      platform = hd (matching_slots project (ad_name a))"
  using find_release_assets_loop_origin [of platform asset "rd_assets release_data" project "[]"]
  by (simp add: find_release_assets_def)

theorem asset_under_first_matching_slot_witness:
  "(''macos_arm64'', new_asset ''tool-darwin-amd64.zip''
        ''https://example.org/download/v2.1.0/tool-darwin-amd64.zip'')
     \<in> set (find_release_assets (example_release_data ''v2.1.0'' [''tool-darwin-amd64.zip''])
              example_custom_project)
   \<and> (\<exists>a \<in> set (rd_assets (example_release_data ''v2.1.0'' [''tool-darwin-amd64.zip''])).
         new_asset ''tool-darwin-amd64.zip''
           ''https://example.org/download/v2.1.0/tool-darwin-amd64.zip'' =
         new_asset (ad_name a) (ad_browser_download_url a) \<and>
         matching_slots example_custom_project (ad_name a) \<noteq> [] \<and>
         ''macos_arm64'' = hd (matching_slots example_custom_project (ad_name a)))"
proof -
  have mem: "(''macos_arm64'', new_asset ''tool-darwin-amd64.zip''
        ''https://example.org/download/v2.1.0/tool-darwin-amd64.zip'')
     \<in> set (find_release_assets (example_release_data ''v2.1.0'' [''tool-darwin-amd64.zip''])
              example_custom_project)"
    by code_simp
  from asset_under_first_matching_slot [OF mem] mem show ?thesis by blast
qed

section \<open>Grouping and sorting the minors\<close>

lemma map_of_dict_set: "map_of (dict_set k v d) = (map_of d)(k \<mapsto> v)"
  by (induction k v d rule: dict_set.induct) auto

lemma keys_dict_set:
  "map fst (dict_set k v d) = (if k \<in> set (map fst d) then map fst d else map fst d @ [k])"
  by (induction k v d rule: dict_set.induct) auto

lemma distinct_dict_set:
  "distinct (map fst d) \<Longrightarrow> distinct (map fst (dict_set k v d))"
  by (simp add: keys_dict_set)
















section \<open>Cleanup of old versions\<close>

lemma cleanup_loop_dry_run:
  "cleanup_loop fs name keep True st =
     st\<lparr>cs_printed := cs_printed st @ map (\<lambda>f. ''  Would remove: '' @ f) (filter (outdated name keep) fs),
        cs_removed := cs_removed st @ filter (outdated name keep) fs\<rparr>"
proof (induction fs arbitrary: st)
  case Nil
  then show ?case by simp
next
  case (Cons f fs)
  show ?case
  proof (cases "outdated name keep f")
    case True
    then obtain v where "search_version name f = Some v" "v \<notin> set keep"
      by (auto simp: outdated_def split: option.splits)
    then show ?thesis using True by (simp add: Cons.IH)
  next
    case False
    then show ?thesis
      by (cases "search_version name f") (simp_all add: Cons.IH outdated_def)
  qed
qed

lemma unlink_present:
  "path \<in> fst ` set formula_dir \<Longrightarrow>
   unlink path formula_dir = Inr (filter (\<lambda>file. fst file \<noteq> path) formula_dir)"
  by (simp add: unlink_def)

lemma cleanup_loop_unlink:
  "distinct fs \<Longrightarrow> set (filter (outdated name keep) fs) \<subseteq> fst ` set (cs_dir st) \<Longrightarrow>
   cleanup_loop fs name keep False st =
     st\<lparr>cs_dir := filter (\<lambda>file. fst file \<notin> set (filter (outdated name keep) fs)) (cs_dir st),
        cs_printed := cs_printed st @ map (\<lambda>f. ''  Removed: '' @ f) (filter (outdated name keep) fs),
        cs_removed := cs_removed st @ filter (outdated name keep) fs\<rparr>"
proof (induction fs arbitrary: st)
  case Nil
  then show ?case by simp
next
  case (Cons f fs)
  show ?case
  proof (cases "outdated name keep f")
    case True
    then obtain v where v: "search_version name f = Some v" "v \<notin> set keep"
      by (auto simp: outdated_def split: option.splits)
    from True Cons.prems have present: "f \<in> fst ` set (cs_dir st)" by auto
    let ?dir' = "filter (\<lambda>file. fst file \<noteq> f) (cs_dir st)"
    let ?st' = "st\<lparr>cs_dir := ?dir',
                  cs_printed := cs_printed st @ [''  Removed: '' @ f],
                  cs_removed := cs_removed st @ [f]\<rparr>"
    have step: "cleanup_loop (f # fs) name keep False st = cleanup_loop fs name keep False ?st'"
      using v unlink_present [OF present] by simp
    have d: "distinct fs" and notin: "f \<notin> set fs" using Cons.prems by auto
    have sub: "set (filter (outdated name keep) fs) \<subseteq> fst ` set (cs_dir ?st')"
    proof
      fix x
      assume x: "x \<in> set (filter (outdated name keep) fs)"
      with Cons.prems have "x \<in> fst ` set (cs_dir st)" by auto
      moreover from x notin have "x \<noteq> f" by auto
      ultimately show "x \<in> fst ` set (cs_dir ?st')" by auto
    qed
    have dirs: "filter (\<lambda>file. fst file \<notin> set (filter (outdated name keep) fs)) ?dir' =
        filter (\<lambda>file. fst file \<notin> set (filter (outdated name keep) (f # fs))) (cs_dir st)"
      using True by (auto intro: filter_cong)
    show ?thesis
      unfolding step Cons.IH [OF d sub] using True dirs by simp
  next
    case False
    then have step: "cleanup_loop (f # fs) name keep False st = cleanup_loop fs name keep False st"
      by (cases "search_version name f") (simp_all add: outdated_def)
    from Cons.prems False have d: "distinct fs"
      and sub: "set (filter (outdated name keep) fs) \<subseteq> fst ` set (cs_dir st)" by auto
    show ?thesis
      unfolding step Cons.IH [OF d sub] using False by simp
  qed
qed

text \<open>
  What the cleanup does, by its own tests. For every state of the target directory (its
  file names distinct), it deletes exactly the stale files, those that the glob lists and
  in whose name the regular expression finds a minor that is not retained, and leaves
  every other file as it is, in place and content; it returns the deleted names and prints
  a line for each. In a dry run it deletes nothing, and returns and prints the names that
  it would delete. It raises no exception.
\<close>

lemma cleanup_removes_stale:
  "distinct (map fst formula_dir) \<Longrightarrow>
   cs_raised (cleanup_old_versions glob formula_dir project_name keep_versions dry_run) = None
   \<and> cs_removed (cleanup_old_versions glob formula_dir project_name keep_versions dry_run) =
       filter (stale glob project_name keep_versions) (map fst formula_dir)
   \<and> cs_dir (cleanup_old_versions glob formula_dir project_name keep_versions dry_run) =
       (if dry_run then formula_dir
        else filter (\<lambda>file. \<not> stale glob project_name keep_versions (fst file)) formula_dir)
   \<and> cs_printed (cleanup_old_versions glob formula_dir project_name keep_versions dry_run) =
       map (\<lambda>f. (if dry_run then ''  Would remove: '' else ''  Removed: '') @ f)
         (filter (stale glob project_name keep_versions) (map fst formula_dir))"
proof -
  assume dist: "distinct (map fst formula_dir)"
  let ?G = "glob (project_name @ ''@*.rb'')"
  let ?existing = "filter ?G (map fst formula_dir)"
  let ?O = "outdated project_name keep_versions"
  let ?st0 = "\<lparr>cs_raised = None, cs_dir = formula_dir, cs_removed = [], cs_printed = []\<rparr>"
  have removed: "filter ?O ?existing = filter (stale glob project_name keep_versions) (map fst formula_dir)"
    by (simp add: stale_def [abs_def])
  have cl: "cleanup_old_versions glob formula_dir project_name keep_versions dry_run =
      cleanup_loop ?existing project_name keep_versions dry_run ?st0"
    by (simp add: cleanup_old_versions_def find_existing_versioned_formulas_def)
  show ?thesis
  proof (cases dry_run)
    case True
    let ?run = "cleanup_old_versions glob formula_dir project_name keep_versions dry_run"
    have run: "?run = cleanup_loop ?existing project_name keep_versions True ?st0"
      using cl True by simp
    have r1: "cs_raised ?run = None"
      and r2: "cs_removed ?run = filter ?O ?existing"
      and r3: "cs_dir ?run = formula_dir"
      and r4: "cs_printed ?run = map (\<lambda>f. ''  Would remove: '' @ f) (filter ?O ?existing)"
      unfolding run cleanup_loop_dry_run by simp_all
    show ?thesis
      unfolding r1 r2 r3 r4 removed using True by simp
  next
    case False
    have d: "distinct ?existing" using dist by simp
    have sub: "set (filter ?O ?existing) \<subseteq> fst ` set (cs_dir ?st0)" by auto
    have dirs: "filter (\<lambda>file. fst file \<notin> set (filter ?O ?existing)) formula_dir =
        filter (\<lambda>file. \<not> stale glob project_name keep_versions (fst file)) formula_dir"
      by (rule filter_cong) (auto simp: stale_def)
    let ?run = "cleanup_old_versions glob formula_dir project_name keep_versions dry_run"
    have run: "?run = cleanup_loop ?existing project_name keep_versions False ?st0"
      using cl False by simp
    have r1: "cs_raised ?run = None"
      and r2: "cs_removed ?run = filter ?O ?existing"
      and r3: "cs_dir ?run = filter (\<lambda>file. fst file \<notin> set (filter ?O ?existing)) formula_dir"
      and r4: "cs_printed ?run = map (\<lambda>f. ''  Removed: '' @ f) (filter ?O ?existing)"
      unfolding run cleanup_loop_unlink [OF d sub] by simp_all
    have r3': "cs_dir ?run =
        filter (\<lambda>file. \<not> stale glob project_name keep_versions (fst file)) formula_dir"
      using r3 dirs by (simp only:)
    show ?thesis
      unfolding r1 r2 r3' r4 removed using False by simp
  qed
qed

text \<open>With 2.1 and 2.0 retained and pinned files for 2.1, 2.0 and 1.9, only the file of
  1.9 is removed; the dry run removes nothing and reports that file.\<close>

lemma cleanup_removes_stale_example:
  "distinct (map fst example_dir)
   \<and> cs_removed (cleanup_old_versions fnmatch example_dir ''tool'' [''2.1'', ''2.0''] False) =
       [''tool@1.9.rb'']
   \<and> cs_dir (cleanup_old_versions fnmatch example_dir ''tool'' [''2.1'', ''2.0''] False) =
       [(''tool.rb'', ''latest''), (''tool@2.1.rb'', ''a''), (''tool@2.0.rb'', ''b''),
        (''other@1.9.rb'', ''d'')]
   \<and> cs_dir (cleanup_old_versions fnmatch example_dir ''tool'' [''2.1'', ''2.0''] True) =
       example_dir
   \<and> cs_removed (cleanup_old_versions fnmatch example_dir ''tool'' [''2.1'', ''2.0''] True) =
       [''tool@1.9.rb'']
   \<and> cs_printed (cleanup_old_versions fnmatch example_dir ''tool'' [''2.1'', ''2.0''] True) =
       [''  Would remove: tool@1.9.rb'']"
proof -
  have dist: "distinct (map fst example_dir)"
    by (simp add: example_dir_def)
  have names: "filter (stale fnmatch ''tool'' [''2.1'', ''2.0'']) (map fst example_dir) =
      [''tool@1.9.rb'']"
    by code_simp
  have files: "filter (\<lambda>file. \<not> stale fnmatch ''tool'' [''2.1'', ''2.0''] (fst file)) example_dir =
      [(''tool.rb'', ''latest''), (''tool@2.1.rb'', ''a''), (''tool@2.0.rb'', ''b''),
        (''other@1.9.rb'', ''d'')]"
    by code_simp
  show ?thesis
    using dist
      cleanup_removes_stale [OF dist, of fnmatch "''tool''" "[''2.1'', ''2.0'']" False]
      cleanup_removes_stale [OF dist, of fnmatch "''tool''" "[''2.1'', ''2.0'']" True]
    by (simp add: names files)
qed

text \<open>
  The stale files by their names, for the matcher \<open>fnmatch\<close> and a project name
  without \<^verbatim>\<open>*\<close> and \<^verbatim>\<open>?\<close>: the pinned file of a minor, \<^verbatim>\<open>name@major.minor.rb\<close>, is
  stale exactly when the minor is not retained.
\<close>

lemma fnmatch_star:
  "fnmatch (CHR ''*'' # ps) s \<longleftrightarrow> (\<exists>k \<le> length s. fnmatch ps (drop k s))"
proof (induction s)
  case Nil
  then show ?case by simp
next
  case (Cons c cs)
  have "(\<exists>k \<le> length (c # cs). fnmatch ps (drop k (c # cs))) \<longleftrightarrow>
        fnmatch ps (c # cs) \<or> (\<exists>k \<le> length cs. fnmatch ps (drop k cs))"
  proof
    assume "\<exists>k \<le> length (c # cs). fnmatch ps (drop k (c # cs))"
    then obtain k where k: "k \<le> length (c # cs)" "fnmatch ps (drop k (c # cs))" by blast
    show "fnmatch ps (c # cs) \<or> (\<exists>k \<le> length cs. fnmatch ps (drop k cs))"
    proof (cases k)
      case 0
      with k show ?thesis by simp
    next
      case (Suc j)
      with k show ?thesis by auto
    qed
  next
    assume "fnmatch ps (c # cs) \<or> (\<exists>k \<le> length cs. fnmatch ps (drop k cs))"
    then show "\<exists>k \<le> length (c # cs). fnmatch ps (drop k (c # cs))"
    proof
      assume "fnmatch ps (c # cs)"
      then have "0 \<le> length (c # cs) \<and> fnmatch ps (drop 0 (c # cs))" by simp
      then show ?thesis by blast
    next
      assume "\<exists>k \<le> length cs. fnmatch ps (drop k cs)"
      then obtain k where "k \<le> length cs" "fnmatch ps (drop k cs)" by blast
      then have "Suc k \<le> length (c # cs) \<and> fnmatch ps (drop (Suc k) (c # cs))" by simp
      then show ?thesis by blast
    qed
  qed
  with Cons show ?case by simp
qed

lemma fnmatch_literal_prefix:
  "CHR ''*'' \<notin> set name \<Longrightarrow> CHR ''?'' \<notin> set name \<Longrightarrow>
   fnmatch (name @ ps) (name @ t) \<longleftrightarrow> fnmatch ps t"
  by (induction name) auto

lemma fnmatch_pinned:
  assumes "CHR ''*'' \<notin> set name" "CHR ''?'' \<notin> set name"
  shows "fnmatch (name @ ''@*.rb'') (name @ ''@'' @ x @ ''.rb'')"
proof -
  have "fnmatch ''.rb'' (drop (length x) (x @ ''.rb''))" by simp
  then have "\<exists>k \<le> length (x @ ''.rb''). fnmatch ''.rb'' (drop k (x @ ''.rb''))"
    by (intro exI [of _ "length x"]) simp
  then have "fnmatch (CHR ''*'' # ''.rb'') (x @ ''.rb'')"
    by (simp only: fnmatch_star)
  then have "fnmatch ''@*.rb'' (''@'' @ x @ ''.rb'')" by simp
  then show ?thesis
    using fnmatch_literal_prefix [OF assms, of "''@*.rb''" "''@'' @ x @ ''.rb''"] by simp
qed

lemma startswith_append_same: "startswith (p @ s) (p @ q) = startswith s q"
  by (induction p) auto

lemma not_digit_dot: "\<not> is_digit (CHR ''.'')"
  by (simp add: is_digit_def)

lemma takeWhile_digits_dot:
  "\<forall>c \<in> set ds. is_digit c \<Longrightarrow> takeWhile is_digit (ds @ CHR ''.'' # rest) = ds"
  using not_digit_dot by simp

lemma dropWhile_digits_dot:
  "\<forall>c \<in> set ds. is_digit c \<Longrightarrow> dropWhile is_digit (ds @ CHR ''.'' # rest) = CHR ''.'' # rest"
  using not_digit_dot by simp

lemma match_version_here_pinned:
  assumes "major \<noteq> []" "minor \<noteq> []" "\<forall>c \<in> set major. is_digit c" "\<forall>c \<in> set minor. is_digit c"
  shows "match_version_here name (name @ ''@'' @ major @ ''.'' @ minor @ ''.rb'') =
           Some (major @ ''.'' @ minor)"
  using assms
  by (simp add: match_version_here_def Let_def startswith_append_same
        takeWhile_digits_dot dropWhile_digits_dot not_digit_dot)

lemma search_version_first:
  "match_version_here name s = Some v \<Longrightarrow> search_version name s = Some v"
  by (cases s) simp_all

lemma stale_pinned_file:
  assumes "CHR ''*'' \<notin> set name" "CHR ''?'' \<notin> set name"
    and "major \<noteq> []" "minor \<noteq> []" "\<forall>c \<in> set major. is_digit c" "\<forall>c \<in> set minor. is_digit c"
  shows "stale fnmatch name keep (name @ ''@'' @ major @ ''.'' @ minor @ ''.rb'') \<longleftrightarrow>
           major @ ''.'' @ minor \<notin> set keep"
proof -
  have g: "fnmatch (name @ ''@*.rb'') (name @ ''@'' @ (major @ ''.'' @ minor) @ ''.rb'')"
    by (rule fnmatch_pinned [OF assms(1,2)])
  have s: "search_version name (name @ ''@'' @ major @ ''.'' @ minor @ ''.rb'') =
      Some (major @ ''.'' @ minor)"
    by (rule search_version_first [OF match_version_here_pinned [OF assms(3-6)]])
  show ?thesis
    using g s by (simp add: stale_def outdated_def)
qed

text \<open>
  Claim C9. For every state of the target directory, the cleanup is to delete exactly the
  project's pinned formula files whose minor is not in the retained set, and to leave
  every other file unchanged; a dry run deletes nothing and reports what it would delete.
  The pinned file of a minor with one part is never deleted. With one older minor kept,
  the releases tagged \<^verbatim>\<open>v3\<close> and \<^verbatim>\<open>v2\<close> have the minors 3 and 2, and the program writes
  \<^verbatim>\<open>tool@3.rb\<close> and \<^verbatim>\<open>tool@2.rb\<close>. After the release \<^verbatim>\<open>v4\<close> the retained minors are 4
  and 3; the next run succeeds and \<^verbatim>\<open>tool@2.rb\<close> is still there: the regular expression
  of the cleanup asks for two numbers with a dot between them and finds no minor in
  \<^verbatim>\<open>tool@2.rb\<close>, so the cleanup removes nothing.
\<close>

theorem cleanup_keeps_one_part_minor:
  "fst first_majors_run = True
   \<and> map fst (snd first_majors_run) = [''tool.rb'', ''tool@3.rb'', ''tool@2.rb'']
   \<and> fst second_majors_run = True
   \<and> map fst (snd second_majors_run) = [''tool.rb'', ''tool@3.rb'', ''tool@2.rb'', ''tool@4.rb'']
   \<and> versions_to_keep [''4'', ''3'', ''2''] (example_project 1) = [''4'', ''3'']
   \<and> search_version ''tool'' ''tool@2.rb'' = None
   \<and> cs_removed (cleanup_old_versions fnmatch
         [(''tool.rb'', ''d''), (''tool@3.rb'', ''c''), (''tool@2.rb'', ''b''), (''tool@4.rb'', ''a'')]
         ''tool'' [''4'', ''3''] False) = []
   \<and> cs_dir (cleanup_old_versions fnmatch
         [(''tool.rb'', ''d''), (''tool@3.rb'', ''c''), (''tool@2.rb'', ''b''), (''tool@4.rb'', ''a'')]
         ''tool'' [''4'', ''3''] False) =
       [(''tool.rb'', ''d''), (''tool@3.rb'', ''c''), (''tool@2.rb'', ''b''), (''tool@4.rb'', ''a'')]"
proof -
  have a: "fst first_majors_run = True"
    by code_simp
  have b: "map fst (snd first_majors_run) = [''tool.rb'', ''tool@3.rb'', ''tool@2.rb'']"
    by code_simp
  have c: "fst second_majors_run = True"
    by code_simp
  have d: "map fst (snd second_majors_run) =
      [''tool.rb'', ''tool@3.rb'', ''tool@2.rb'', ''tool@4.rb'']"
    by code_simp
  have e: "versions_to_keep [''4'', ''3'', ''2''] (example_project 1) = [''4'', ''3'']"
    by code_simp
  have f: "search_version ''tool'' ''tool@2.rb'' = None"
    by code_simp
  have g: "cs_removed (cleanup_old_versions fnmatch
         [(''tool.rb'', ''d''), (''tool@3.rb'', ''c''), (''tool@2.rb'', ''b''), (''tool@4.rb'', ''a'')]
         ''tool'' [''4'', ''3''] False) = []"
    by code_simp
  have h: "cs_dir (cleanup_old_versions fnmatch
         [(''tool.rb'', ''d''), (''tool@3.rb'', ''c''), (''tool@2.rb'', ''b''), (''tool@4.rb'', ''a'')]
         ''tool'' [''4'', ''3''] False) =
       [(''tool.rb'', ''d''), (''tool@3.rb'', ''c''), (''tool@2.rb'', ''b''), (''tool@4.rb'', ''a'')]"
    by code_simp
  from a b c d e f g h show ?thesis by (intro conjI)
qed

section \<open>The canonical formula file\<close>

lemma startswith_length: "startswith s p \<Longrightarrow> length p \<le> length s"
  by (induction s p rule: startswith.induct) auto

lemma match_version_here_length:
  assumes "match_version_here name s = Some v"
  shows "length name + 3 < length s"
proof -
  let ?r = "drop (length name + 1) s"
  let ?r1 = "dropWhile is_digit ?r"
  let ?r3 = "dropWhile is_digit (drop 1 ?r1)"
  from assms have sw: "startswith s (name @ ''@'')"
    and r3: "?r3 = ''.rb'' \<or> ?r3 = ''.rb\<newline>''"
    by (auto simp: match_version_here_def Let_def split: if_splits)
  from r3 have "3 \<le> length ?r3" by auto
  also have "length ?r3 \<le> length (drop 1 ?r1)" by (rule length_dropWhile_le)
  also have "\<dots> \<le> length ?r1" by simp
  also have "\<dots> \<le> length ?r" by (rule length_dropWhile_le)
  finally have "3 \<le> length s - (length name + 1)" by simp
  moreover from startswith_length [OF sw] have "length name + 1 \<le> length s" by simp
  ultimately show ?thesis by arith
qed

lemma search_version_length:
  "search_version name s = Some v \<Longrightarrow> length name + 3 < length s"
proof (induction s)
  case Nil
  then show ?case using match_version_here_length [of name "[]" v] by simp
next
  case (Cons c cs)
  show ?case
  proof (cases "match_version_here name (c # cs)")
    case None
    with Cons show ?thesis by simp
  next
    case (Some w)
    then show ?thesis using match_version_here_length [of name "c # cs" w] by simp
  qed
qed

lemma canonical_not_outdated: "\<not> outdated name keep (name @ ''.rb'')"
proof -
  have "search_version name (name @ ''.rb'') = None"
  proof (cases "search_version name (name @ ''.rb'')")
    case None then show ?thesis .
  next
    case (Some v)
    from search_version_length [OF this] show ?thesis by simp
  qed
  then show ?thesis by (simp add: outdated_def)
qed

lemma map_of_filter_other:
  "path \<noteq> f \<Longrightarrow> map_of (filter (\<lambda>file. fst file \<noteq> f) d) path = map_of d path"
  by (induction d) auto

lemma cleanup_loop_keeps:
  "\<not> outdated name keep path \<Longrightarrow>
   map_of (cs_dir (cleanup_loop fs name keep dry_run st)) path = map_of (cs_dir st) path"
proof (induction fs arbitrary: st)
  case Nil
  then show ?case by simp
next
  case (Cons f fs)
  show ?case
  proof (cases "outdated name keep f")
    case False
    then have "cleanup_loop (f # fs) name keep dry_run st = cleanup_loop fs name keep dry_run st"
      by (cases "search_version name f") (simp_all add: outdated_def)
    then show ?thesis using Cons by simp
  next
    case True
    then obtain v where v: "search_version name f = Some v" "v \<notin> set keep"
      by (auto simp: outdated_def split: option.splits)
    from True Cons.prems have neq: "path \<noteq> f" by auto
    show ?thesis
    proof (cases dry_run)
      case True
      then show ?thesis using v Cons by simp
    next
      case False
      show ?thesis
      proof (cases "unlink f (cs_dir st)")
        case (Inl e)
        with v False show ?thesis by simp
      next
        case (Inr d')
        then have d': "d' = filter (\<lambda>file. fst file \<noteq> f) (cs_dir st)"
          by (auto simp: unlink_def split: if_splits)
        have "map_of d' path = map_of (cs_dir st) path"
          unfolding d' by (rule map_of_filter_other [OF neq])
        with v False Inr Cons show ?thesis by simp
      qed
    qed
  qed
qed

lemma cleanup_keeps_canonical:
  "map_of (cs_dir (cleanup_old_versions glob formula_dir name keep dry_run)) (name @ ''.rb'') =
   map_of formula_dir (name @ ''.rb'')"
  unfolding cleanup_old_versions_def Let_def
  by (simp add: cleanup_loop_keeps [OF canonical_not_outdated])

lemma map_of_write_file:
  "map_of (write_file path content d) = (map_of d)(path \<mapsto> content)"
  by (simp add: write_file_def map_of_dict_set)

lemma write_formulas_keeps_canonical:
  "latest \<notin> fst ` set gen \<Longrightarrow>
   map_of (write_formulas gen latest project dry_run d) (Project_name project @ ''.rb'') =
   map_of d (Project_name project @ ''.rb'')"
proof (induction gen arbitrary: d)
  case Nil
  then show ?case by simp
next
  case (Cons g gen)
  obtain mm r where g: "g = (mm, r)" by (cases g)
  from Cons.prems g have neq: "mm \<noteq> latest" and rest: "latest \<notin> fst ` set gen" by auto
  show ?case
    unfolding g using neq Cons.IH [OF rest]
    by (simp add: Let_def map_of_write_file)
qed

lemma write_formulas_writes_canonical:
  assumes "latest \<notin> fst ` set gen"
  shows "map_of (write_formulas ((latest, r) # gen) latest project False d)
           (Project_name project @ ''.rb'') = Some (generate_formula project r False)"
  using assms
  by (simp add: Let_def write_formulas_keeps_canonical map_of_write_file)

lemma dict_set_head:
  "d \<noteq> [] \<Longrightarrow> dict_set k v d \<noteq> [] \<and> fst (hd (dict_set k v d)) = fst (hd d)"
  by (cases d) (auto split: if_splits)

lemma process_versions_step:
  "process_versions (mm # rest) G project sha acc =
     (case map_of G mm of
        None \<Rightarrow> Inl KeyError
      | Some rd \<Rightarrow>
          if find_release_assets rd project = [] then process_versions rest G project sha acc
          else (case checksum_assets sha (find_release_assets rd project) of
                  Inl e \<Rightarrow> Inl e
                | Inr assets \<Rightarrow>
                    process_versions rest G project sha
                      (dict_set mm \<lparr>Release_tag = rd_tag_name rd,
                                    Release_version = extract_version (rd_tag_name rd),
                                    Release_major_minor = mm,
                                    Release_assets = assets\<rparr> acc)))"
  by (simp add: Let_def split: option.splits sum.splits)

lemma process_versions_Cons:
  assumes "process_versions (mm # vs) G project sha acc = Inr gen"
  shows "process_versions vs G project sha acc = Inr gen \<or>
         (\<exists>r. built G project sha mm r \<and>
              process_versions vs G project sha (dict_set mm r acc) = Inr gen)"
proof (cases "map_of G mm")
  case None
  with assms show ?thesis unfolding process_versions_step by simp
next
  case (Some rd)
  show ?thesis
  proof (cases "find_release_assets rd project = []")
    case True
    with Some assms show ?thesis unfolding process_versions_step by simp
  next
    case False
    show ?thesis
    proof (cases "checksum_assets sha (find_release_assets rd project)")
      case (Inl e)
      with Some False assms show ?thesis unfolding process_versions_step by simp
    next
      case (Inr assets)
      let ?r = "\<lparr>Release_tag = rd_tag_name rd,
                 Release_version = extract_version (rd_tag_name rd),
                 Release_major_minor = mm, Release_assets = assets\<rparr>"
      from Some False Inr assms
      have run: "process_versions vs G project sha (dict_set mm ?r acc) = Inr gen"
        unfolding process_versions_step by simp
      have new: "built G project sha mm ?r"
        by (simp add: built_def Some Inr)
      from run new show ?thesis by blast
    qed
  qed
qed

lemma process_versions_head:
  "process_versions vs G project sha acc = Inr gen \<Longrightarrow> acc \<noteq> [] \<Longrightarrow>
   gen \<noteq> [] \<and> fst (hd gen) = fst (hd acc)"
proof (induction vs arbitrary: acc)
  case Nil
  then show ?case by simp
next
  case (Cons mm vs)
  from process_versions_Cons [OF Cons.prems(1)] show ?case
  proof
    assume "process_versions vs G project sha acc = Inr gen"
    from Cons.IH [OF this Cons.prems(2)] show ?thesis .
  next
    assume "\<exists>r. built G project sha mm r \<and>
              process_versions vs G project sha (dict_set mm r acc) = Inr gen"
    then obtain r where run: "process_versions vs G project sha (dict_set mm r acc) = Inr gen"
      by blast
    from dict_set_head [OF Cons.prems(2), of mm r]
    have ne: "dict_set mm r acc \<noteq> []" and hd: "fst (hd (dict_set mm r acc)) = fst (hd acc)"
      by simp_all
    from Cons.IH [OF run ne] hd show ?thesis by simp
  qed
qed

lemma process_versions_distinct:
  "process_versions vs G project sha acc = Inr gen \<Longrightarrow> distinct (map fst acc) \<Longrightarrow>
   distinct (map fst gen)"
proof (induction vs arbitrary: acc)
  case Nil
  then show ?case by simp
next
  case (Cons mm vs)
  from process_versions_Cons [OF Cons.prems(1)] show ?case
  proof
    assume "process_versions vs G project sha acc = Inr gen"
    from Cons.IH [OF this Cons.prems(2)] show ?thesis .
  next
    assume "\<exists>r. built G project sha mm r \<and>
              process_versions vs G project sha (dict_set mm r acc) = Inr gen"
    then obtain r where run: "process_versions vs G project sha (dict_set mm r acc) = Inr gen"
      by blast
    from Cons.IH [OF run distinct_dict_set [OF Cons.prems(2)]] show ?thesis .
  qed
qed

lemma process_versions_built:
  "process_versions vs G project sha acc = Inr gen \<Longrightarrow>
   \<forall>entry \<in> set acc. built G project sha (fst entry) (snd entry) \<Longrightarrow>
   \<forall>entry \<in> set gen. built G project sha (fst entry) (snd entry)"
proof (induction vs arbitrary: acc)
  case Nil
  then show ?case by simp
next
  case (Cons mm vs)
  from process_versions_Cons [OF Cons.prems(1)] show ?case
  proof
    assume "process_versions vs G project sha acc = Inr gen"
    from Cons.IH [OF this Cons.prems(2)] show ?thesis .
  next
    assume "\<exists>r. built G project sha mm r \<and>
              process_versions vs G project sha (dict_set mm r acc) = Inr gen"
    then obtain r where new: "built G project sha mm r"
      and run: "process_versions vs G project sha (dict_set mm r acc) = Inr gen"
      by blast
    have "\<forall>entry \<in> set (dict_set mm r acc). built G project sha (fst entry) (snd entry)"
      using set_dict_set [of mm r acc] new Cons.prems(2) by auto
    from Cons.IH [OF run this] show ?thesis .
  qed
qed

lemma take_Cons_head: "take k (x # xs) = [] \<or> (\<exists>rest. take k (x # xs) = x # rest)"
  by (cases k) auto

lemma slice_to_Cons: "slice_to (x # xs) n = [] \<or> (\<exists>rest. slice_to (x # xs) n = x # rest)"
proof (cases "0 \<le> n")
  case True
  then have "slice_to (x # xs) n = take (nat n) (x # xs)" by (simp add: slice_to_def)
  then show ?thesis using take_Cons_head [of "nat n" x xs] by (simp only:)
next
  case False
  then have "slice_to (x # xs) n = take (length (x # xs) - nat (- n)) (x # xs)"
    by (simp add: slice_to_def)
  then show ?thesis using take_Cons_head [of "length (x # xs) - nat (- n)" x xs] by (simp only:)
qed

text \<open>A dry run leaves the directory as it is, whatever the result.\<close>

lemma write_formulas_dry_run:
  "write_formulas gen latest project True formula_dir = formula_dir"
  by (induction gen arbitrary: formula_dir) (auto simp: Let_def)

lemma cleanup_dry_run_dir:
  "cs_dir (cleanup_old_versions glob formula_dir name keep True) = formula_dir"
  by (simp add: cleanup_old_versions_def cleanup_loop_dry_run Let_def)

lemma process_project_dry_run:
  "snd (process_project project github compute_sha256 glob formula_dir True) = formula_dir"
  by (simp add: process_project_def Let_def write_formulas_dry_run cleanup_dry_run_dir
      split: sum.splits list.splits)

text \<open>
  Claim C1, as stated: for every project that is processed successfully, the canonical
  formula file is written with the rendering of the latest retained minor, also when some
  retained minors are skipped. It fails twice. With one older minor kept, a latest minor
  2.1 without an archive and a minor 2.0 with one, the project is processed successfully
  and only the pinned file of 2.0 is written: there is no canonical file. In a dry run a
  project is processed successfully and nothing is written.
\<close>

theorem canonical_always_written_counterexample:
  "fst (process_project (example_project 1) (example_github releases_latest_skipped)
          example_sha256 fnmatch [] False) = True
   \<and> map fst (snd (process_project (example_project 1) (example_github releases_latest_skipped)
          example_sha256 fnmatch [] False)) = [''tool@2.0.rb'']
   \<and> map_of (snd (process_project (example_project 1) (example_github releases_latest_skipped)
          example_sha256 fnmatch [] False)) ''tool.rb'' = None
   \<and> process_project (example_project 0) (example_github releases_older_skipped)
          example_sha256 fnmatch [] True = (True, [])"
proof -
  have a: "fst (process_project (example_project 1) (example_github releases_latest_skipped)
          example_sha256 fnmatch [] False) = True"
    by code_simp
  have b: "map fst (snd (process_project (example_project 1) (example_github releases_latest_skipped)
          example_sha256 fnmatch [] False)) = [''tool@2.0.rb'']"
    by code_simp
  have c: "map_of (snd (process_project (example_project 1) (example_github releases_latest_skipped)
          example_sha256 fnmatch [] False)) ''tool.rb'' = None"
  proof -
    have "''tool.rb'' \<notin> set (map fst (snd (process_project (example_project 1)
          (example_github releases_latest_skipped) example_sha256 fnmatch [] False)))"
      unfolding b by simp
    then show ?thesis by (simp add: map_of_eq_None_iff)
  qed
  have d: "process_project (example_project 0) (example_github releases_older_skipped)
          example_sha256 fnmatch [] True = (True, [])"
    by code_simp
  from a b c d show ?thesis by blast
qed

text \<open>
  Claim C1, amended. For every project that is processed successfully outside a dry run,
  if the latest minor, the first in the descending order, has at least one matched asset,
  then the canonical formula file of the project is in the directory afterwards, and its
  content is the rendering of the release of that minor; this holds also when other
  retained minors are skipped for having no matched assets.
\<close>

theorem canonical_formula_written:
  assumes run: "process_project project0 github compute_sha256 glob formula_dir False =
                  (True, formula_dir')"
    and meta: "fill_repo_info project0 github = Inr project"
    and rel: "get_releases github (Project_repo project) 30 = Inr releases_data"
    and srt: "sorted_versions (map fst (group_releases releases_data [])) =
                Inr (latest_version # older)"
    and latest: "map_of (group_releases releases_data []) latest_version = Some release_data"
    and matched: "find_release_assets release_data project \<noteq> []"
  shows "\<exists>assets.
           checksum_assets compute_sha256 (find_release_assets release_data project) = Inr assets \<and>
           map_of formula_dir' (Project_name project @ ''.rb'') =
             Some (generate_formula project
                     \<lparr>Release_tag = rd_tag_name release_data,
                      Release_version = extract_version (rd_tag_name release_data),
                      Release_major_minor = latest_version,
                      Release_assets = assets\<rparr> False)"
proof -
  let ?G = "group_releases releases_data []"
  let ?keep = "versions_to_keep (latest_version # older) project"
  let ?canonical = "Project_name project @ ''.rb''"
  have "\<exists>gen. process_versions ?keep ?G project compute_sha256 [] = Inr gen \<and> gen \<noteq> [] \<and>
      formula_dir' =
      (if Project_keep_versions project > 0
       then cs_dir (cleanup_old_versions glob
              (write_formulas gen latest_version project False formula_dir)
              (Project_name project) (map fst gen) False)
       else write_formulas gen latest_version project False formula_dir)"
    using run
    by (simp add: process_project_def meta rel srt Let_def split: if_splits sum.splits)
  then obtain gen where
    gen: "process_versions ?keep ?G project compute_sha256 [] = Inr gen"
    and nonempty: "gen \<noteq> []"
    and dir': "formula_dir' =
      (if Project_keep_versions project > 0
       then cs_dir (cleanup_old_versions glob
              (write_formulas gen latest_version project False formula_dir)
              (Project_name project) (map fst gen) False)
       else write_formulas gen latest_version project False formula_dir)"
    by blast
  have kept: "map_of formula_dir' ?canonical =
      map_of (write_formulas gen latest_version project False formula_dir) ?canonical"
    unfolding dir' by (simp add: cleanup_keeps_canonical)
  from slice_to_Cons [of latest_version older "Project_keep_versions project + 1"]
  have "?keep = [] \<or> (\<exists>rest. ?keep = latest_version # rest)"
    by (simp add: versions_to_keep_def)
  then obtain rest where keep: "?keep = latest_version # rest"
    using gen nonempty by auto
  have "\<exists>assets.
      checksum_assets compute_sha256 (find_release_assets release_data project) = Inr assets \<and>
      process_versions rest ?G project compute_sha256
        (dict_set latest_version
           \<lparr>Release_tag = rd_tag_name release_data,
            Release_version = extract_version (rd_tag_name release_data),
            Release_major_minor = latest_version, Release_assets = assets\<rparr> []) = Inr gen"
    using gen unfolding keep process_versions_step
    by (simp add: latest matched split: sum.splits)
  then obtain assets r where
    sums: "checksum_assets compute_sha256 (find_release_assets release_data project) = Inr assets"
    and r: "r = \<lparr>Release_tag = rd_tag_name release_data,
                 Release_version = extract_version (rd_tag_name release_data),
                 Release_major_minor = latest_version, Release_assets = assets\<rparr>"
    and run2: "process_versions rest ?G project compute_sha256 (dict_set latest_version r []) =
                 Inr gen"
    by blast
  have new: "built ?G project compute_sha256 latest_version r"
    by (simp add: built_def latest sums r)
  have acc: "dict_set latest_version r [] = [(latest_version, r)]" by simp
  from process_versions_head [OF run2] have hd: "fst (hd gen) = latest_version"
    by (simp add: acc)
  from process_versions_distinct [OF run2] have dist: "distinct (map fst gen)"
    by (simp add: acc)
  have blt: "\<forall>entry \<in> set gen. built ?G project compute_sha256 (fst entry) (snd entry)"
    by (rule process_versions_built [OF run2]) (simp add: acc new)
  from nonempty obtain g gen' where split: "gen = g # gen'" by (cases gen) auto
  from hd split have g1: "fst g = latest_version" by simp
  from blt split g1 have "built ?G project compute_sha256 latest_version (snd g)" by auto
  with latest sums r have g2: "snd g = r" by (simp add: built_def)
  from g1 g2 have g: "g = (latest_version, r)" by (cases g) auto
  from dist split g have fresh: "latest_version \<notin> fst ` set gen'" by auto
  have "map_of (write_formulas gen latest_version project False formula_dir) ?canonical =
      Some (generate_formula project r False)"
    unfolding split g by (rule write_formulas_writes_canonical [OF fresh])
  with kept have "map_of formula_dir' ?canonical = Some (generate_formula project r False)"
    by simp
  with sums show ?thesis unfolding r by (intro exI [of _ assets] conjI)
qed

theorem canonical_formula_written_witness:
  "fst (process_project (example_project 2) (example_github releases_older_skipped)
          example_sha256 fnmatch [] False) = True
   \<and> fill_repo_info (example_project 2) (example_github releases_older_skipped) =
       Inr (example_filled_project 2)
   \<and> sorted_versions (map fst (group_releases releases_older_skipped [])) =
       Inr [''2.1'', ''2.0'', ''1.9'']
   \<and> find_release_assets (example_release_data ''v2.0.3'' [''tool.sig''])
         (example_filled_project 2) = []
   \<and> find_release_assets (example_release_data ''v2.1.0'' [''tool-linux-amd64.tgz''])
         (example_filled_project 2) \<noteq> []
   \<and> (\<exists>assets.
         checksum_assets example_sha256
           (find_release_assets (example_release_data ''v2.1.0'' [''tool-linux-amd64.tgz''])
              (example_filled_project 2)) = Inr assets \<and>
         map_of (snd (process_project (example_project 2) (example_github releases_older_skipped)
                        example_sha256 fnmatch [] False))
           (Project_name (example_filled_project 2) @ ''.rb'') =
           Some (generate_formula (example_filled_project 2)
                   \<lparr>Release_tag = rd_tag_name (example_release_data ''v2.1.0'' [''tool-linux-amd64.tgz'']),
                    Release_version = extract_version
                      (rd_tag_name (example_release_data ''v2.1.0'' [''tool-linux-amd64.tgz''])),
                    Release_major_minor = ''2.1'',
                    Release_assets = assets\<rparr> False))"
proof -
  let ?run = "process_project (example_project 2) (example_github releases_older_skipped)
          example_sha256 fnmatch [] False"
  have ok: "fst ?run = True"
    by code_simp
  then have run: "?run = (True, snd ?run)"
    by (simp add: prod_eq_iff)
  have meta: "fill_repo_info (example_project 2) (example_github releases_older_skipped) =
       Inr (example_filled_project 2)"
    by code_simp
  have rel: "get_releases (example_github releases_older_skipped)
      (Project_repo (example_filled_project 2)) 30 = Inr releases_older_skipped"
    by (simp add: example_github_def)
  have srt: "sorted_versions (map fst (group_releases releases_older_skipped [])) =
       Inr (''2.1'' # [''2.0'', ''1.9''])"
    by code_simp
  have latest: "map_of (group_releases releases_older_skipped []) ''2.1'' =
      Some (example_release_data ''v2.1.0'' [''tool-linux-amd64.tgz''])"
    by code_simp
  have skipped: "find_release_assets (example_release_data ''v2.0.3'' [''tool.sig''])
         (example_filled_project 2) = []"
    by code_simp
  have matched: "find_release_assets (example_release_data ''v2.1.0'' [''tool-linux-amd64.tgz''])
         (example_filled_project 2) \<noteq> []"
    by code_simp
  from canonical_formula_written [OF run meta rel srt latest matched] ok meta srt skipped matched
  show ?thesis by simp
qed

section \<open>The URL template\<close>

text \<open>
  Claim C2. For every release and every matched asset whose URL contains the release tag,
  evaluating the rendered URL against the release's version is to give the asset's URL
  back. For the tag \<^verbatim>\<open>1.2.3\<close>, which has no prefix letter, the version is \<^verbatim>\<open>1.2.3\<close> and
  the rendered URL holds \<^verbatim>\<open>v#{version}\<close> in the place of the tag: it evaluates to a URL
  with \<^verbatim>\<open>v1.2.3\<close>, which is not the asset's URL.
\<close>

theorem url_round_trip_fails_without_v:
  "py_in (Release_tag unprefixed_release) (Asset_url unprefixed_asset)
   \<and> rendered_url unprefixed_asset unprefixed_release =
       ''https://example.org/download/v#{version}/tool-linux-amd64.tgz''
   \<and> installed_url unprefixed_asset unprefixed_release =
       ''https://example.org/download/v1.2.3/tool-linux-amd64.tgz''
   \<and> installed_url unprefixed_asset unprefixed_release \<noteq> Asset_url unprefixed_asset"
proof -
  have a: "py_in (Release_tag unprefixed_release) (Asset_url unprefixed_asset)"
    by code_simp
  have b: "rendered_url unprefixed_asset unprefixed_release =
       ''https://example.org/download/v#{version}/tool-linux-amd64.tgz''"
    by code_simp
  have c: "installed_url unprefixed_asset unprefixed_release =
       ''https://example.org/download/v1.2.3/tool-linux-amd64.tgz''"
    by code_simp
  have d: "installed_url unprefixed_asset unprefixed_release \<noteq> Asset_url unprefixed_asset"
    unfolding c by (simp add: unprefixed_asset_def)
  from a b c d show ?thesis by blast
qed

text \<open>The round trip holds when the tag is the letter \<^verbatim>\<open>v\<close> followed by the version and
  the asset's URL has no \<^verbatim>\<open>#\<close>.\<close>

lemma startswith_drop: "startswith s p \<Longrightarrow> p @ drop (length p) s = s"
  by (induction s p rule: startswith.induct) auto

lemma template_round_trip:
  "CHR ''#'' \<notin> set url \<Longrightarrow>
   replace_nonempty ''#{version}'' ver
     (replace_nonempty (CHR ''v'' # ver) ''v#{version}'' url) = url"
proof (induction "CHR ''v'' # ver" "''v#{version}''" url rule: replace_nonempty.induct)
  case 1
  then show ?case by simp
next
  case (2 c cs)
  show ?case
  proof (cases "startswith (c # cs) (CHR ''v'' # ver)")
    case True
    let ?rest = "drop (length (CHR ''v'' # ver)) (c # cs)"
    have "set ?rest \<subseteq> set (c # cs)" by (rule set_drop_subset)
    with "2.prems" have clean: "CHR ''#'' \<notin> set ?rest" by blast
    have ih: "replace_nonempty ''#{version}'' ver
        (replace_nonempty (CHR ''v'' # ver) ''v#{version}'' ?rest) = ?rest"
      using "2.hyps"(1) True clean by simp
    have inner: "replace_nonempty (CHR ''v'' # ver) ''v#{version}'' (c # cs) =
        ''v#{version}'' @ replace_nonempty (CHR ''v'' # ver) ''v#{version}'' ?rest"
      using True by (simp del: startswith.simps)
    have "replace_nonempty ''#{version}'' ver
        (replace_nonempty (CHR ''v'' # ver) ''v#{version}'' (c # cs)) =
        CHR ''v'' # ver @ ?rest"
      unfolding inner using ih by simp
    also have "\<dots> = (CHR ''v'' # ver) @ ?rest" by simp
    also have "\<dots> = c # cs" by (rule startswith_drop [OF True])
    finally show ?thesis .
  next
    case False
    from "2.prems" have c: "c \<noteq> CHR ''#''" and clean: "CHR ''#'' \<notin> set cs" by auto
    have ih: "replace_nonempty ''#{version}'' ver
        (replace_nonempty (CHR ''v'' # ver) ''v#{version}'' cs) = cs"
      using "2.hyps"(2) False clean by simp
    have inner: "replace_nonempty (CHR ''v'' # ver) ''v#{version}'' (c # cs) =
        c # replace_nonempty (CHR ''v'' # ver) ''v#{version}'' cs"
      using False by (simp del: startswith.simps)
    show ?thesis
      unfolding inner using c ih by simp
  qed
qed

lemma url_round_trip_with_v:
  assumes "Release_tag release = CHR ''v'' # Release_version release"
    and "CHR ''#'' \<notin> set (Asset_url asset)"
  shows "installed_url asset release = Asset_url asset"
  using template_round_trip [OF assms(2), of "Release_version release"]
  by (simp add: installed_url_def eval_template_def rendered_url_def replace_def assms(1))

lemma url_round_trip_single_v:
  assumes "rd_tag_name release_data = CHR ''v'' # rest" and "\<not> startswith rest ''v''"
    and "Release_tag release = rd_tag_name release_data"
    and "Release_version release = extract_version (rd_tag_name release_data)"
    and "CHR ''#'' \<notin> set (Asset_url asset)"
  shows "installed_url asset release = Asset_url asset"
proof -
  have "Release_version release = rest"
    using assms(1,2,4) by (simp add: extract_version_one_v)
  with assms(1,3) have "Release_tag release = CHR ''v'' # Release_version release" by simp
  from url_round_trip_with_v [OF this assms(5)] show ?thesis .
qed

end
